theory Spec2Isabelle
  imports Complex_Main "HOL-Library.Sublist"
begin

section \<open>UMEBOT backend: a shallow embedding of the orchestration fabric\<close>

text \<open>
  The development follows the Python sources of the backend. Every class that matters
  here is a record of its attributes, every method a function from the record to the
  updated record. Calls into collaborators that are outside the repository (the robot
  proxies, the WebSocket library, the logger) are written to an explicit trace, so that
  "what was sent" is a value one can state theorems about.
\<close>

subsection \<open>Logging\<close>

datatype log_level = LDebug | LInfo | LWarning | LError | LCritical

type_synonym log_line = "log_level \<times> string"

subsection \<open>audio/MicLocal.py: the capture callback and its bounded intake queue\<close>

text \<open>
  \<^verbatim>\<open>queue.Queue(maxsize)\<close>: a FIFO; \<^verbatim>\<open>put_nowait\<close> raises \<^verbatim>\<open>queue.Full\<close> when
  \<^verbatim>\<open>maxsize > 0\<close> and the queue already holds \<^verbatim>\<open>maxsize\<close> items. New items go to the
  back of the list, \<^verbatim>\<open>get\<close> takes the head.
\<close>

datatype queue_error = QueueFull

definition queue_full :: "int \<Rightarrow> 'a list \<Rightarrow> bool" where
  "queue_full maxsize q = (0 < maxsize \<and> maxsize \<le> int (length q))"

definition put_nowait :: "int \<Rightarrow> 'a list \<Rightarrow> 'a \<Rightarrow> queue_error + 'a list" where
  "put_nowait maxsize q x = (if queue_full maxsize q then Inl QueueFull else Inr (q @ [x]))"

text \<open>
  \<^verbatim>\<open>sd.CallbackFlags\<close>: the object is truthy when any of its flags is set; the callback
  reads \<^verbatim>\<open>input_overflow\<close> only.
\<close>

record callback_flags =
  input_overflow :: bool
  other_flag :: bool

definition flags_truthy :: "callback_flags \<Rightarrow> bool" where
  "flags_truthy st = (input_overflow st \<or> other_flag st)"

text \<open>The attributes of \<^verbatim>\<open>LocalMicHandler\<close> that \<^verbatim>\<open>_audio_callback\<close> touches.\<close>

record 'f local_mic_handler =
  raw_audio_queue :: "'f list"
  raw_queue_size :: int
  capture_active_flag :: bool
  mic_log :: "log_line list"

definition msg_input_overflow :: string where
  "msg_input_overflow = ''SOBREFLUJO DE ENTRADA DETECTADO EN EL STREAM DE AUDIO''"

definition msg_raw_queue_full :: string where
  "msg_raw_queue_full = ''Cola de audio crudo (_raw_audio_queue) llena, descartando frame.''"

text \<open>
  \<^verbatim>\<open>
  def _audio_callback(self, indata, frames, time_info, status):
      if status:
          if status.input_overflow: log.error(...)
      if not self._capture_active_flag.is_set(): return
      try:
          self._raw_audio_queue.put_nowait(indata.copy())
      except queue.Full: log.debug("Cola de audio crudo ... llena, descartando frame.")
  \<close>
\<close>

definition audio_callback ::
  "'f local_mic_handler \<Rightarrow> 'f \<Rightarrow> callback_flags \<Rightarrow> 'f local_mic_handler" where
  "audio_callback h indata status =
     (let h1 = (if flags_truthy status \<and> input_overflow status
                then h\<lparr>mic_log := mic_log h @ [(LError, msg_input_overflow)]\<rparr> else h)
      in if \<not> capture_active_flag h1 then h1
         else (case put_nowait (raw_queue_size h1) (raw_audio_queue h1) indata of
                 Inr q' \<Rightarrow> h1\<lparr>raw_audio_queue := q'\<rparr>
               | Inl QueueFull \<Rightarrow> h1\<lparr>mic_log := mic_log h1 @ [(LDebug, msg_raw_queue_full)]\<rparr>))"

text \<open>A handler whose intake queue of size two is full, used for the concrete checks.\<close>

definition full_mic :: "nat local_mic_handler" where
  "full_mic = \<lparr>raw_audio_queue = [1, 2], raw_queue_size = 2,
               capture_active_flag = True, mic_log = []\<rparr>"

definition no_flags :: callback_flags where
  "no_flags = \<lparr>input_overflow = False, other_flag = False\<rparr>"

subsection \<open>JSON values and Python's view of them\<close>

text \<open>
  What \<^verbatim>\<open>json.loads\<close> returns: \<^verbatim>\<open>None\<close>, a bool, a number (\<^verbatim>\<open>int\<close> or \<^verbatim>\<open>float\<close>,
  both read as a real here), a string, a list or a dict. A dict is the list of its
  items; a key is looked up from the front.
\<close>

datatype json =
    JNull
  | JBool bool
  | JNum real
  | JStr string
  | JArr "json list"
  | JObj "(string \<times> json) list"

type_synonym py_dict = "(string \<times> json) list"

text \<open>Truth value testing, as \<^verbatim>\<open>if x:\<close> and \<^verbatim>\<open>not x\<close> do it.\<close>

fun truthy :: "json \<Rightarrow> bool" where
  "truthy JNull = False"
| "truthy (JBool b) = b"
| "truthy (JNum r) = (r \<noteq> 0)"
| "truthy (JStr s) = (s \<noteq> [])"
| "truthy (JArr xs) = (xs \<noteq> [])"
| "truthy (JObj kvs) = (kvs \<noteq> [])"

text \<open>\<^verbatim>\<open>k in d\<close>, and \<^verbatim>\<open>d.get(k, default)\<close>; \<^verbatim>\<open>d.get(k)\<close> has the default \<^verbatim>\<open>None\<close>.\<close>

definition dict_has :: "py_dict \<Rightarrow> string \<Rightarrow> bool" where
  "dict_has d k = (map_of d k \<noteq> None)"

definition dict_get :: "py_dict \<Rightarrow> string \<Rightarrow> json \<Rightarrow> json" where
  "dict_get d k dflt = (case map_of d k of None \<Rightarrow> dflt | Some v \<Rightarrow> v)"

text \<open>
  \<^verbatim>\<open>isinstance\<close> tests. \<^verbatim>\<open>bool\<close> is a subclass of \<^verbatim>\<open>int\<close>, so
  \<^verbatim>\<open>isinstance(True, (int, float))\<close> holds.
\<close>

fun is_str :: "json \<Rightarrow> bool" where
  "is_str (JStr s) = True"
| "is_str j = False"

fun is_dict :: "json \<Rightarrow> bool" where
  "is_dict (JObj d) = True"
| "is_dict j = False"

fun is_bool :: "json \<Rightarrow> bool" where
  "is_bool (JBool b) = True"
| "is_bool j = False"

fun is_int_or_float :: "json \<Rightarrow> bool" where
  "is_int_or_float (JNum r) = True"
| "is_int_or_float (JBool b) = True"
| "is_int_or_float j = False"

text \<open>The exceptions the modelled code can raise.\<close>

datatype py_exn = ValueError string | AttributeError | TypeError | RuntimeError string

text \<open>
  The apostrophe, and \<^verbatim>\<open>str\<close> of a list of strings as an f-string prints it:
  \<^verbatim>\<open>['up', 'down']\<close>.
\<close>

abbreviation sq :: string where
  "sq \<equiv> [CHR 0x27]"

fun join_reprs :: "string list \<Rightarrow> string" where
  "join_reprs [] = []"
| "join_reprs [k] = sq @ k @ sq"
| "join_reprs (k # ks) = sq @ k @ sq @ '', '' @ join_reprs ks"

definition str_of_keys :: "string list \<Rightarrow> string" where
  "str_of_keys ks = ''['' @ join_reprs ks @ '']''"

subsection \<open>tabletserver/Messages.py: the wire protocol\<close>

definition MSG_TYPE_INPUT :: string where
  "MSG_TYPE_INPUT = ''input''"

definition MSG_TYPE_OUTPUT :: string where
  "MSG_TYPE_OUTPUT = ''output''"

definition MSG_TYPE_SYSTEM :: string where
  "MSG_TYPE_SYSTEM = ''system''"

definition MSG_TYPE_CONFIG :: string where
  "MSG_TYPE_CONFIG = ''config''"

definition MSG_TYPE_PARTIAL_STT_RESULT :: string where
  "MSG_TYPE_PARTIAL_STT_RESULT = ''partial_stt_result''"

definition MSG_TYPE_GAMEPAD_STATE :: string where
  "MSG_TYPE_GAMEPAD_STATE = ''gamepad_state''"

text \<open>
  The \<^verbatim>\<open>craft_*\<close> functions build a dict and return \<^verbatim>\<open>json.dumps\<close> of it. The model
  keeps the dict; the timestamp is the clock reading, passed in as \<open>ts\<close>.
\<close>

definition craft_output_message :: "string \<Rightarrow> string \<Rightarrow> string \<Rightarrow> string \<Rightarrow> json" where
  "craft_output_message ts sender_name text original_input_source =
     JObj [(''type'', JStr MSG_TYPE_OUTPUT), (''timestamp'', JStr ts),
           (''payload'', JObj [(''sender'', JStr sender_name), (''text'', JStr text),
                               (''original_input_source'', JStr original_input_source)])]"

definition craft_system_message ::
  "string \<Rightarrow> string \<Rightarrow> string \<Rightarrow> string \<Rightarrow> json option \<Rightarrow> json" where
  "craft_system_message ts sender_name level text detail =
     (let payload_content = [(''sender'', JStr sender_name), (''level'', JStr level),
                             (''text'', JStr text)];
          payload_content' = (case detail of None \<Rightarrow> payload_content
                              | Some d \<Rightarrow> payload_content @ [(''detail'', d)])
      in JObj [(''type'', JStr MSG_TYPE_SYSTEM), (''timestamp'', JStr ts),
               (''payload'', JObj payload_content')])"

definition craft_partial_stt_result_message :: "string \<Rightarrow> string \<Rightarrow> bool \<Rightarrow> json" where
  "craft_partial_stt_result_message ts partial_text is_final =
     JObj [(''type'', JStr MSG_TYPE_PARTIAL_STT_RESULT), (''timestamp'', JStr ts),
           (''payload'', JObj [(''text'', JStr partial_text), (''is_final'', JBool is_final)])]"

text \<open>
  The two validation helpers local to \<^verbatim>\<open>deserialize_client_message\<close>. Each returns
  \<^verbatim>\<open>True\<close> or raises \<^verbatim>\<open>ValueError\<close>; \<open>Inl\<close> carries the message of the exception.
\<close>

definition is_valid_joystick_object :: "json \<Rightarrow> string \<Rightarrow> string + unit" where
  "is_valid_joystick_object stick_obj stick_name =
     (case stick_obj of
        JObj d \<Rightarrow>
          if \<not> list_all (\<lambda>key. dict_has d key) [''x'', ''y'']
          then Inl (sq @ stick_name @ sq @ '' debe contener las claves 'x' e 'y'.'')
          else if \<not> is_int_or_float (dict_get d ''x'' JNull) \<or>
                  \<not> is_int_or_float (dict_get d ''y'' JNull)
          then Inl (''Los valores 'x' e 'y' de '' @ sq @ stick_name @ sq @
                    '' deben ser numericos.'')
          else Inr ()
      | _ \<Rightarrow> Inl (sq @ stick_name @ sq @ '' debe ser un objeto (diccionario).''))"

definition is_valid_button_object :: "json \<Rightarrow> string \<Rightarrow> string list \<Rightarrow> string + unit" where
  "is_valid_button_object button_obj button_group_name expected_keys =
     (case button_obj of
        JObj d \<Rightarrow>
          if \<not> list_all (\<lambda>key. dict_has d key) expected_keys
          then Inl (''A '' @ sq @ button_group_name @ sq @ '' le faltan las claves: '' @
                    str_of_keys (filter (\<lambda>k. \<not> dict_has d k) expected_keys) @ ''.'')
          else if \<not> list_all (\<lambda>key. is_bool (dict_get d key JNull)) expected_keys
          then Inl (''Los valores en '' @ sq @ button_group_name @ sq @
                    '' deben ser booleanos. Claves no booleanas: '' @
                    str_of_keys (filter (\<lambda>k. \<not> is_bool (dict_get d k JNull)) expected_keys) @
                    ''.'')
          else Inr ()
      | _ \<Rightarrow> Inl (sq @ button_group_name @ sq @ '' debe ser un objeto (diccionario).''))"

definition required_top_level_keys :: "string list" where
  "required_top_level_keys =
     [''left_stick'', ''right_stick'', ''dpad_events'', ''action_button_events'',
      ''stick_button_states'']"

text \<open>
  The loop \<^verbatim>\<open>for key in required_top_level_keys: if key not in payload: raise ...\<close>:
  the first absent key, in the order of the list, decides the message.
\<close>

fun check_required_keys :: "py_dict \<Rightarrow> string list \<Rightarrow> string + unit" where
  "check_required_keys payload [] = Inr ()"
| "check_required_keys payload (key # keys) =
     (if \<not> dict_has payload key
      then Inl (''Mensaje '' @ sq @ MSG_TYPE_GAMEPAD_STATE @ sq @ '' invalido: 'payload.'' @
                key @ sq @ '' es faltante.'')
      else check_required_keys payload keys)"

text \<open>Sequencing of two checks: the second runs only when the first did not raise.\<close>

definition and_then :: "string + unit \<Rightarrow> string + unit \<Rightarrow> string + unit" where
  "and_then a b = (case a of Inl e \<Rightarrow> Inl e | Inr u \<Rightarrow> b)"

text \<open>
  The \<^verbatim>\<open>try\<close> block of the gamepad branch, and the handler that re-raises a helper's
  \<^verbatim>\<open>ValueError\<close> with the prefix.
\<close>

definition validate_gamepad_objects :: "py_dict \<Rightarrow> string + unit" where
  "validate_gamepad_objects payload =
     (case and_then (is_valid_joystick_object (dict_get payload ''left_stick'' JNull)
                       ''payload.left_stick'')
          (and_then (is_valid_joystick_object (dict_get payload ''right_stick'' JNull)
                       ''payload.right_stick'')
          (and_then (is_valid_button_object (dict_get payload ''dpad_events'' JNull)
                       ''payload.dpad_events'' [''up'', ''down'', ''left'', ''right''])
          (and_then (is_valid_button_object (dict_get payload ''action_button_events'' JNull)
                       ''payload.action_button_events'' [''a'', ''b'', ''x'', ''y''])
                    (is_valid_button_object (dict_get payload ''stick_button_states'' JNull)
                       ''payload.stick_button_states'' [''l3_pressed'', ''r3_pressed'']))))
      of Inl e_val \<Rightarrow>
           Inl (''El payload del mensaje '' @ sq @ MSG_TYPE_GAMEPAD_STATE @ sq @
                '' es invalido: '' @ e_val)
       | Inr u \<Rightarrow> Inr ())"

text \<open>
  The checks of \<^verbatim>\<open>deserialize_client_message\<close> that depend on the message type: the
  payload must be a dict for the three client types, then the per-type validation.
  Any other type is not validated.
\<close>

definition validate_payload_for :: "string \<Rightarrow> json \<Rightarrow> string + unit" where
  "validate_payload_for msg_type payload =
     (if msg_type \<in> set [MSG_TYPE_INPUT, MSG_TYPE_CONFIG, MSG_TYPE_GAMEPAD_STATE] then
        (case payload of
           JNull \<Rightarrow> Inl (''El mensaje JSON es invalido: 'payload' es faltante para el tipo '' @
                         sq @ msg_type @ sq @ ''.'')
         | JObj d \<Rightarrow>
             if msg_type = MSG_TYPE_INPUT then
               (if \<not> dict_has d ''text'' \<or> \<not> is_str (dict_get d ''text'' JNull)
                then Inl (''Mensaje '' @ sq @ MSG_TYPE_INPUT @ sq @
                          '' invalido: 'payload.text' es faltante o no es un string.'')
                else Inr ())
             else if msg_type = MSG_TYPE_CONFIG then
               (if \<not> dict_has d ''config_item'' \<or> \<not> is_str (dict_get d ''config_item'' JNull)
                then Inl (''Mensaje '' @ sq @ MSG_TYPE_CONFIG @ sq @
                          '' invalido: 'payload.config_item' es faltante o no es un string.'')
                else if \<not> dict_has d ''value''
                then Inl (''Mensaje '' @ sq @ MSG_TYPE_CONFIG @ sq @
                          '' invalido: 'payload.value' es faltante.'')
                else Inr ())
             else and_then (check_required_keys d required_top_level_keys)
                           (validate_gamepad_objects d)
         | _ \<Rightarrow> Inl (''El mensaje JSON es invalido: 'payload' no es un objeto (diccionario) '' @
                      ''para el tipo '' @ sq @ msg_type @ sq @ ''.''))
      else Inr ())"

text \<open>
  \<^verbatim>\<open>deserialize_client_message(json_string)\<close>. The argument of the model is what
  \<^verbatim>\<open>json.loads\<close> made of the string: \<open>Inl e\<close> for a \<^verbatim>\<open>JSONDecodeError\<close> with text
  \<open>e\<close>, \<open>Inr v\<close> for the parsed value. The result is \<open>Inl m\<close> for
  \<^verbatim>\<open>ValueError(m)\<close> and \<open>Inr message\<close> for the returned dict.
\<close>

definition msg_type_invalid :: string where
  "msg_type_invalid =
     ''El mensaje JSON es invalido: la clave 'type' es faltante o no es un string.''"

definition deserialize_client_message :: "string + json \<Rightarrow> string + json" where
  "deserialize_client_message loaded =
     (case loaded of
        Inl e \<Rightarrow> Inl (''El mensaje recibido no es un JSON valido: '' @ e)
      | Inr (JObj message) \<Rightarrow>
          (let msg_type = dict_get message ''type'' JNull;
               payload = dict_get message ''payload'' JNull
           in if \<not> truthy msg_type \<or> \<not> is_str msg_type then Inl msg_type_invalid
              else (case msg_type of
                      JStr t \<Rightarrow> (case validate_payload_for t payload of
                                   Inl e \<Rightarrow> Inl e
                                 | Inr u \<Rightarrow> Inr (JObj message))
                    | _ \<Rightarrow> Inl msg_type_invalid))
      | Inr _ \<Rightarrow> Inl ''El mensaje JSON debe ser un objeto (diccionario).'')"

subsection \<open>motion/MotionGamePad.py: the gamepad interpreter and its worker thread\<close>

text \<open>
  Calls made on the injected \<^verbatim>\<open>RobotHardwareController\<close> and on the optional
  \<^verbatim>\<open>AnimationSpeechController\<close> are recorded in the order they are made.
\<close>

datatype hw_call =
    SetBaseVelocities real real real
  | TriggerHardwareEmergencyStop
  | InitializeRobot
  | ReleaseRobot

datatype asc_call =
    PlayLocalAnimationByCategory json json
  | PlayStandardAnimationByTag json
  | SayTextWithEmbeddedStandardAnimations json

text \<open>
  The threads that \<^verbatim>\<open>start_processing\<close> has created, each with the point of
  \<^verbatim>\<open>_processing_loop\<close> where it stands: at the \<^verbatim>\<open>while\<close> test, blocked in
  \<^verbatim>\<open>self._new_data_event.wait(timeout=GAMEPAD_DATA_TIMEOUT_SEC)\<close>, holding the payload
  it has taken under the lock (the local \<^verbatim>\<open>current_payload\<close>) and about to process it,
  or past the end of the function. The loop takes no lock after it has read the payload,
  so the handlers of the event loop and the functions run on pool threads can run between
  any two of these points. In the record of the gamepad controller, \<open>threads\<close> holds
  them in the order of their creation and \<open>processing_thread\<close> is the index of the one
  that \<^verbatim>\<open>self._processing_thread\<close> refers to.
\<close>

datatype worker_pc = AtLoopHead | Waiting | Processing json | Finished

definition DEFAULT_SPEED_MODIFIER_INIT :: real where
  "DEFAULT_SPEED_MODIFIER_INIT = 0.5"

definition MIN_SPEED_MODIFIER_LIMIT :: real where
  "MIN_SPEED_MODIFIER_LIMIT = 0.1"

definition MAX_SPEED_MODIFIER_LIMIT :: real where
  "MAX_SPEED_MODIFIER_LIMIT = 1.0"

definition SPEED_MODIFIER_INCREMENT_STEP :: real where
  "SPEED_MODIFIER_INCREMENT_STEP = 0.1"

definition JOYSTICK_DEADZONE :: real where
  "JOYSTICK_DEADZONE = 0.08"

definition GAMEPAD_DATA_TIMEOUT_SEC :: real where
  "GAMEPAD_DATA_TIMEOUT_SEC = 0.35"

record motion_gamepad =
  asc_available :: bool
  gamepad_anim_config :: "(int \<times> json) list"
  latest_gamepad_payload :: "json option"
  new_data_event :: bool
  run_processing_flag :: bool
  emergency_stop_active_flag :: bool
  current_speed_modifier :: real
  num_animation_layers :: int
  current_animation_layer :: int
  prev_dpad_events :: py_dict
  prev_action_button_events :: py_dict
  last_sent_velocities :: "real \<times> real \<times> real"
  threads :: "worker_pc list"
  processing_thread :: "nat option"
  hw_calls :: "hw_call list"
  asc_calls :: "asc_call list"

text \<open>
  \<^verbatim>\<open>__init__\<close>: the speed modifier is clamped, the default layer is used when it is
  in range, and the last sent velocities start at zero.
\<close>

definition clamp_speed :: "real \<Rightarrow> real" where
  "clamp_speed f = max MIN_SPEED_MODIFIER_LIMIT (min MAX_SPEED_MODIFIER_LIMIT f)"

definition motion_gamepad_init ::
  "bool \<Rightarrow> (int \<times> json) list \<Rightarrow> int \<Rightarrow> real \<Rightarrow> motion_gamepad" where
  "motion_gamepad_init asc cfg default_animation_layer initial_speed_modifier =
     (let n = int (length cfg) in
      \<lparr>asc_available = asc,
       gamepad_anim_config = cfg,
       latest_gamepad_payload = None,
       new_data_event = False,
       run_processing_flag = False,
       emergency_stop_active_flag = False,
       current_speed_modifier = clamp_speed initial_speed_modifier,
       num_animation_layers = n,
       current_animation_layer =
         (if n = 0 then 0
          else if 0 \<le> default_animation_layer \<and> default_animation_layer < n
               then default_animation_layer else 0),
       prev_dpad_events = [],
       prev_action_button_events = [],
       last_sent_velocities = (0, 0, 0),
       threads = [],
       processing_thread = None,
       hw_calls = [],
       asc_calls = []\<rparr>)"

text \<open>\<^verbatim>\<open>update_gamepad_state\<close>: ignored while the emergency stop flag is set.\<close>

definition update_gamepad_state :: "motion_gamepad \<Rightarrow> json \<Rightarrow> motion_gamepad" where
  "update_gamepad_state g gamepad_payload =
     (if emergency_stop_active_flag g then g
      else g\<lparr>latest_gamepad_payload := Some gamepad_payload, new_data_event := True\<rparr>)"

text \<open>
  \<^verbatim>\<open>trigger_emergency_stop\<close>: set the flag, drop the pending payload, wake the worker,
  forward the stop to the hardware controller, then zero the velocities.
\<close>

definition trigger_emergency_stop :: "motion_gamepad \<Rightarrow> motion_gamepad" where
  "trigger_emergency_stop g =
     g\<lparr>emergency_stop_active_flag := True,
       latest_gamepad_payload := None,
       new_data_event := True,
       last_sent_velocities := (0, 0, 0),
       hw_calls := hw_calls g @ [TriggerHardwareEmergencyStop, SetBaseVelocities 0 0 0]\<rparr>"

definition clear_emergency_stop :: "motion_gamepad \<Rightarrow> motion_gamepad" where
  "clear_emergency_stop g =
     g\<lparr>emergency_stop_active_flag := False,
       latest_gamepad_payload := None,
       new_data_event := False\<rparr>"

definition update_speed_factor_from_global :: "motion_gamepad \<Rightarrow> real \<Rightarrow> motion_gamepad" where
  "update_speed_factor_from_global g global_speed_factor =
     g\<lparr>current_speed_modifier := clamp_speed global_speed_factor\<rparr>"

text \<open>
  Rising edge of a button: \<^verbatim>\<open>events.get(k) and not prev.get(k, False)\<close>.
\<close>

definition rising :: "py_dict \<Rightarrow> py_dict \<Rightarrow> string \<Rightarrow> bool" where
  "rising events prev k =
     (truthy (dict_get events k JNull) \<and> \<not> truthy (dict_get prev k (JBool False)))"

text \<open>\<^verbatim>\<open>{k: False for k in events}\<close>\<close>

definition all_false :: "py_dict \<Rightarrow> py_dict" where
  "all_false events = map (\<lambda>(k, v). (k, JBool False)) events"

text \<open>Python's \<^verbatim>\<open>%\<close> with a positive divisor is HOL's \<open>mod\<close> on \<open>int\<close>.\<close>

text \<open>
  \<^verbatim>\<open>_process_dpad_events\<close>. The argument is whatever the payload holds under
  \<^verbatim>\<open>dpad_events\<close>: a falsy value returns at once, a dict is processed, anything else
  fails at the first \<^verbatim>\<open>.get\<close>. The result pairs the exception, if one was raised,
  with the state at that point.
\<close>

definition dpad_speed_modifier :: "py_dict \<Rightarrow> py_dict \<Rightarrow> real \<Rightarrow> real" where
  "dpad_speed_modifier ev prev m0 =
     (let m1 = (if rising ev prev ''up''
                then min MAX_SPEED_MODIFIER_LIMIT (m0 + SPEED_MODIFIER_INCREMENT_STEP) else m0)
      in if rising ev prev ''down''
         then max MIN_SPEED_MODIFIER_LIMIT (m1 - SPEED_MODIFIER_INCREMENT_STEP) else m1)"

definition dpad_animation_layer :: "py_dict \<Rightarrow> py_dict \<Rightarrow> int \<Rightarrow> int \<Rightarrow> int" where
  "dpad_animation_layer ev prev n l0 =
     (let l1 = (if 0 < n \<and> rising ev prev ''left'' then (l0 - 1 + n) mod n else l0)
      in if 0 < n \<and> rising ev prev ''right'' then (l1 + 1) mod n else l1)"

definition process_dpad_events :: "motion_gamepad \<Rightarrow> json \<Rightarrow> py_exn option \<times> motion_gamepad" where
  "process_dpad_events g dpad_events =
     (if \<not> truthy dpad_events then (None, g)
      else case dpad_events of
        JObj ev \<Rightarrow>
          (let prev = (if prev_dpad_events g = [] then all_false ev else prev_dpad_events g)
           in (None, g\<lparr>current_speed_modifier :=
                          dpad_speed_modifier ev prev (current_speed_modifier g),
                        current_animation_layer :=
                          dpad_animation_layer ev prev (num_animation_layers g)
                            (current_animation_layer g),
                        prev_dpad_events := ev\<rparr>))
      | _ \<Rightarrow> (Some AttributeError, g))"

text \<open>
  One button of \<^verbatim>\<open>_process_action_button_events\<close>: the dispatch on the configured
  action. \<open>Inl\<close> is an exception (a configuration that is not a dict, or a text that
  cannot be sliced for the log line), \<open>Inr\<close> the calls made on the controller.
\<close>

definition dispatch_action :: "json \<Rightarrow> py_exn + asc_call list" where
  "dispatch_action action_config =
     (if \<not> truthy action_config then Inr []
      else case action_config of
        JObj ac \<Rightarrow>
          (let action_type = dict_get ac ''type'' JNull in
           if action_type = JStr ''none'' then Inr []
           else if action_type = JStr ''local_anim'' then
             (let cat = dict_get ac ''category'' JNull; name = dict_get ac ''name'' JNull
              in if truthy cat then Inr [PlayLocalAnimationByCategory cat name] else Inr [])
           else if action_type = JStr ''standard_tag'' then
             (let tag = dict_get ac ''tag'' JNull
              in if truthy tag then Inr [PlayStandardAnimationByTag tag] else Inr [])
           else if action_type = JStr ''speak_annotated'' then
             (let text_to_say = dict_get ac ''text'' JNull
              in if \<not> truthy text_to_say then Inr []
                 else (case text_to_say of
                         JStr t \<Rightarrow> Inr [SayTextWithEmbeddedStandardAnimations text_to_say]
                       | JArr t \<Rightarrow> Inr [SayTextWithEmbeddedStandardAnimations text_to_say]
                       | _ \<Rightarrow> Inl TypeError))
           else Inr [])
      | _ \<Rightarrow> Inl AttributeError)"

text \<open>The loop \<^verbatim>\<open>for btn_key in ["a", "b", "x", "y"]\<close>.\<close>

fun dispatch_buttons ::
  "py_dict \<Rightarrow> py_dict \<Rightarrow> py_dict \<Rightarrow> string list \<Rightarrow> asc_call list \<Rightarrow> py_exn option \<times> asc_call list"
where
  "dispatch_buttons ev prev layer_cfg [] calls = (None, calls)"
| "dispatch_buttons ev prev layer_cfg (btn_key # keys) calls =
     (if rising ev prev btn_key then
        (case dispatch_action (dict_get layer_cfg btn_key JNull) of
           Inl e \<Rightarrow> (Some e, calls)
         | Inr cs \<Rightarrow> dispatch_buttons ev prev layer_cfg keys (calls @ cs))
      else dispatch_buttons ev prev layer_cfg keys calls)"

text \<open>
  \<^verbatim>\<open>_process_action_button_events\<close> after the previous state has been initialised:
  the exception raised if any, the calls made on the controller, and the value stored in
  \<^verbatim>\<open>_prev_action_button_events\<close> (the current events, unless an exception came first).
\<close>

definition action_button_outcome ::
  "bool \<Rightarrow> (int \<times> json) list \<Rightarrow> int \<Rightarrow> int \<Rightarrow> py_dict \<Rightarrow> py_dict \<Rightarrow>
   py_exn option \<times> asc_call list \<times> py_dict" where
  "action_button_outcome asc cfg n layer ev prev =
     (if \<not> asc then (None, [], ev)
      else if cfg = [] \<or> n = 0 then (None, [], ev)
      else (case map_of cfg layer of
              Some (JObj layer_cfg) \<Rightarrow>
                if layer_cfg = [] then (None, [], ev)
                else (case dispatch_buttons ev prev layer_cfg [''a'', ''b'', ''x'', ''y''] []
                      of (Some e, cs) \<Rightarrow> (Some e, cs, prev)
                       | (None, cs) \<Rightarrow> (None, cs, ev))
            | Some other \<Rightarrow>
                if truthy other \<and> list_ex (rising ev prev) [''a'', ''b'', ''x'', ''y'']
                then (Some AttributeError, [], prev)
                else (None, [], ev)
            | None \<Rightarrow> (None, [], ev)))"

definition process_action_button_events ::
  "motion_gamepad \<Rightarrow> json \<Rightarrow> py_exn option \<times> motion_gamepad" where
  "process_action_button_events g action_button_events =
     (if \<not> truthy action_button_events then (None, g)
      else case action_button_events of
        JObj ev \<Rightarrow>
          (let prev = (if prev_action_button_events g = [] then all_false ev
                       else prev_action_button_events g);
               outcome = action_button_outcome (asc_available g) (gamepad_anim_config g)
                           (num_animation_layers g) (current_animation_layer g) ev prev
           in (fst outcome,
               g\<lparr>prev_action_button_events := snd (snd outcome),
                 asc_calls := asc_calls g @ fst (snd outcome)\<rparr>))
      | _ \<Rightarrow> (Some AttributeError, g))"

text \<open>
  A stick axis as the loop reads it: \<^verbatim>\<open>stick.get(axis, 0.0)\<close>, which must be a number
  (the debug f-string formats it with \<^verbatim>\<open>:.3f\<close> whether or not the line is printed).
\<close>

fun num_of :: "json \<Rightarrow> real option" where
  "num_of (JNum r) = Some r"
| "num_of (JBool b) = Some (if b then 1 else 0)"
| "num_of j = None"

definition stick_axis :: "json \<Rightarrow> string \<Rightarrow> real option" where
  "stick_axis stick axis =
     (case stick of JObj s \<Rightarrow> num_of (dict_get s axis (JNum 0)) | _ \<Rightarrow> None)"

definition default_stick :: json where
  "default_stick = JObj [(''x'', JNum 0), (''y'', JNum 0)]"

definition moving :: "real \<times> real \<times> real \<Rightarrow> bool" where
  "moving v = (case v of (vx, vy, vtheta) \<Rightarrow>
                 \<bar>vx\<bar> > 0.001 \<or> \<bar>vy\<bar> > 0.001 \<or> \<bar>vtheta\<bar> > 0.001)"

definition all_below :: "real \<times> real \<times> real \<Rightarrow> bool" where
  "all_below v = (case v of (vx, vy, vtheta) \<Rightarrow>
                    \<bar>vx\<bar> < 0.001 \<and> \<bar>vy\<bar> < 0.001 \<and> \<bar>vtheta\<bar> < 0.001)"

definition apply_deadzone :: "real \<Rightarrow> real \<Rightarrow> real" where
  "apply_deadzone v_in raw = (if \<bar>raw\<bar> > JOYSTICK_DEADZONE then v_in else 0)"

text \<open>
  The stick part of the payload branch: sign mapping, dead zone, speed modifier, the
  decision whether to send, and the send.
\<close>

definition target_velocities :: "real \<Rightarrow> real \<Rightarrow> real \<Rightarrow> real \<Rightarrow> real \<times> real \<times> real" where
  "target_velocities raw_ly raw_lx raw_rx speed =
     (apply_deadzone raw_ly raw_ly * speed,
      apply_deadzone (- raw_lx) raw_lx * speed,
      apply_deadzone (- raw_rx) raw_rx * speed)"

definition should_send_velocities :: "real \<times> real \<times> real \<Rightarrow> real \<times> real \<times> real \<Rightarrow> bool" where
  "should_send_velocities target last_sent =
     (case target of (vx_t, vy_t, vtheta_t) \<Rightarrow>
      case last_sent of (lx, ly, ltheta) \<Rightarrow>
        if \<bar>vx_t - lx\<bar> > 0.001 \<or> \<bar>vy_t - ly\<bar> > 0.001 \<or> \<bar>vtheta_t - ltheta\<bar> > 0.001
        then True
        else moving target \<and> all_below last_sent)"

definition send_velocities :: "motion_gamepad \<Rightarrow> real \<times> real \<times> real \<Rightarrow> motion_gamepad" where
  "send_velocities g v =
     (case v of (vx, vy, vtheta) \<Rightarrow>
        g\<lparr>hw_calls := hw_calls g @ [SetBaseVelocities vx vy vtheta],
          last_sent_velocities := v\<rparr>)"

definition process_sticks :: "motion_gamepad \<Rightarrow> py_dict \<Rightarrow> py_exn option \<times> motion_gamepad" where
  "process_sticks g payload =
     (let left_stick = dict_get payload ''left_stick'' default_stick;
          right_stick = dict_get payload ''right_stick'' default_stick
      in case (stick_axis left_stick ''y'', stick_axis left_stick ''x'',
               stick_axis right_stick ''x'') of
           (Some raw_ly, Some raw_lx, Some raw_rx) \<Rightarrow>
             (let target = target_velocities raw_ly raw_lx raw_rx (current_speed_modifier g)
              in if should_send_velocities target (last_sent_velocities g)
                 then (None, send_velocities g target)
                 else (None, g))
         | _ \<Rightarrow> (Some AttributeError, g))"

text \<open>The branch \<^verbatim>\<open>if current_payload:\<close> of the loop body.\<close>

definition process_payload :: "motion_gamepad \<Rightarrow> json \<Rightarrow> py_exn option \<times> motion_gamepad" where
  "process_payload g current_payload =
     (case current_payload of
        JObj payload \<Rightarrow>
          (case process_dpad_events g (dict_get payload ''dpad_events'' (JObj [])) of
             (Some e, g1) \<Rightarrow> (Some e, g1)
           | (None, g1) \<Rightarrow>
               (case process_action_button_events g1
                       (dict_get payload ''action_button_events'' (JObj [])) of
                  (Some e, g2) \<Rightarrow> (Some e, g2)
                | (None, g2) \<Rightarrow> process_sticks g2 payload))
      | _ \<Rightarrow> (Some AttributeError, g))"

definition set_pc :: "motion_gamepad \<Rightarrow> nat \<Rightarrow> worker_pc \<Rightarrow> motion_gamepad" where
  "set_pc g i pc = g\<lparr>threads := (threads g)[i := pc]\<rparr>"

text \<open>
  The code after the \<^verbatim>\<open>while\<close> loop: the robot is stopped unless the emergency stop
  already did it. \<^verbatim>\<open>_last_sent_velocities\<close> is not touched here.
\<close>

definition worker_exit :: "motion_gamepad \<Rightarrow> nat \<Rightarrow> motion_gamepad" where
  "worker_exit g i =
     (let g1 = (if \<not> emergency_stop_active_flag g
                then g\<lparr>hw_calls := hw_calls g @ [SetBaseVelocities 0 0 0]\<rparr> else g)
      in set_pc g1 i Finished)"

text \<open>
  From the \<^verbatim>\<open>while\<close> test to the blocking wait: leave the loop when the run flag is
  cleared; under emergency stop send zero if the robot was moving, sleep and come back to
  the loop head; otherwise enter the wait.
\<close>

definition worker_head :: "motion_gamepad \<Rightarrow> nat \<Rightarrow> motion_gamepad" where
  "worker_head g i =
     (if \<not> run_processing_flag g then worker_exit g i
      else if emergency_stop_active_flag g then
        (if moving (last_sent_velocities g) then send_velocities g (0, 0, 0) else g)
      else set_pc g i Waiting)"

text \<open>
  The \<^verbatim>\<open>else\<close> branch of \<^verbatim>\<open>if current_payload:\<close>, the dead-man mechanism: unless
  the emergency stop flag is set, zero is sent if the robot was moving according to
  \<^verbatim>\<open>_last_sent_velocities\<close>.
\<close>

definition dead_man :: "motion_gamepad \<Rightarrow> motion_gamepad" where
  "dead_man g =
     (if \<not> emergency_stop_active_flag g \<and> moving (last_sent_velocities g)
      then send_velocities g (0, 0, 0) else g)"

text \<open>
  The return of the wait: \<^verbatim>\<open>True\<close> when the event is set, \<^verbatim>\<open>False\<close> when the
  timeout expired first. With the event set the pending payload is taken under the lock;
  a payload in hand is processed in the next step, and without one the dead-man branch
  runs.
\<close>

definition worker_take :: "motion_gamepad \<Rightarrow> nat \<Rightarrow> motion_gamepad" where
  "worker_take g i =
     (let event_is_set = new_data_event g;
          current_payload = (if event_is_set then latest_gamepad_payload g else None);
          g1 = (if event_is_set
                then g\<lparr>new_data_event := False, latest_gamepad_payload := None\<rparr> else g)
      in case current_payload of
           Some p \<Rightarrow>
             if truthy p then set_pc g1 i (Processing p)
             else set_pc (dead_man g1) i AtLoopHead
         | None \<Rightarrow> set_pc (dead_man g1) i AtLoopHead)"

text \<open>
  The branch \<^verbatim>\<open>if current_payload:\<close> for the payload in hand, up to the loop head.
  The emergency stop flag is not read again before the velocities are sent. An exception
  anywhere in the body clears the run flag and leaves the loop.
\<close>

definition worker_process :: "motion_gamepad \<Rightarrow> nat \<Rightarrow> json \<Rightarrow> motion_gamepad" where
  "worker_process g i current_payload =
     (case process_payload g current_payload of
        (None, g2) \<Rightarrow> set_pc g2 i AtLoopHead
      | (Some e, g2) \<Rightarrow> worker_exit (g2\<lparr>run_processing_flag := False\<rparr>) i)"

text \<open>The next step of the thread \<open>i\<close>, if there is such a thread and it has not ended.\<close>

definition worker_step :: "motion_gamepad \<Rightarrow> nat \<Rightarrow> motion_gamepad" where
  "worker_step g i =
     (if i < length (threads g) then
        (case threads g ! i of
           AtLoopHead \<Rightarrow> worker_head g i
         | Waiting \<Rightarrow> worker_take g i
         | Processing p \<Rightarrow> worker_process g i p
         | Finished \<Rightarrow> g)
      else g)"

text \<open>\<^verbatim>\<open>self._processing_thread and self._processing_thread.is_alive()\<close>\<close>

definition thread_alive :: "motion_gamepad \<Rightarrow> bool" where
  "thread_alive g =
     (case processing_thread g of
        None \<Rightarrow> False
      | Some i \<Rightarrow> i < length (threads g) \<and> threads g ! i \<noteq> Finished)"

text \<open>
  \<^verbatim>\<open>start_processing\<close>: nothing to do when the thread is alive; otherwise the hardware
  controller initialises the robot (\<open>init_ok\<close> is what \<^verbatim>\<open>initialize_robot()\<close>
  returns), the flags are reset and a new thread is created and started.
  \<^verbatim>\<open>_last_sent_velocities\<close> is not reset.
\<close>

definition start_processing :: "motion_gamepad \<Rightarrow> bool \<Rightarrow> bool \<times> motion_gamepad" where
  "start_processing g init_ok =
     (if thread_alive g then (True, g)
      else
        (let g1 = g\<lparr>hw_calls := hw_calls g @ [InitializeRobot]\<rparr> in
         if \<not> init_ok then (False, g1)
         else (True, g1\<lparr>run_processing_flag := True,
                        emergency_stop_active_flag := False,
                        new_data_event := False,
                        latest_gamepad_payload := None,
                        threads := threads g @ [AtLoopHead],
                        processing_thread := Some (length (threads g))\<rparr>)))"

text \<open>
  \<^verbatim>\<open>stop_processing\<close>, in two parts. First the run flag is cleared and the event is
  set to wake the thread. Then the caller joins the thread with a timeout of
  \<^verbatim>\<open>GAMEPAD_DATA_TIMEOUT_SEC + 0.5\<close> seconds, during which the thread takes its steps;
  whether it has ended or not when the join returns, the reference to it is dropped, and
  the robot is released unless the stop is part of an emergency stop.
\<close>

definition stop_processing_signal :: "motion_gamepad \<Rightarrow> motion_gamepad" where
  "stop_processing_signal g = g\<lparr>run_processing_flag := False, new_data_event := True\<rparr>"

definition stop_processing_after_join :: "motion_gamepad \<Rightarrow> bool \<Rightarrow> motion_gamepad" where
  "stop_processing_after_join g emergency_stop_invoked =
     (let g1 = g\<lparr>processing_thread := None\<rparr>
      in if \<not> emergency_stop_invoked then g1\<lparr>hw_calls := hw_calls g1 @ [ReleaseRobot]\<rparr>
         else g1)"

subsection \<open>MotionManager.py: the control-mode state machine\<close>

text \<open>The three values \<^verbatim>\<open>_current_control_mode\<close> takes: "idle", "gamepad", "emergency_stopped".\<close>

datatype control_mode = Idle | GamepadMode | EmergencyStopped

text \<open>
  The handlers of the manager are coroutines of the event loop. Each runs without
  interruption by another coroutine up to an \<^verbatim>\<open>await asyncio.to_thread(f)\<close>, where it
  is suspended while \<open>f\<close> runs on a pool thread; the event loop runs other coroutines
  meanwhile, and the worker thread runs all the time. A suspended handler is kept as a
  task that says which call on the gamepad controller it waits for, or which line it
  resumes at once the call has returned.
\<close>

datatype task =
    TriggerWaiting
  | ClearWaiting json
  | ClearReturned json
  | ActivateClearWaiting bool
  | ActivateStartWaiting bool
  | ActivateStartReturned bool
  | DeactivateStopWaiting bool
  | DeactivateJoining bool
  | DeactivateStopReturned bool
  | TaskDone

record motion_manager =
  current_control_mode :: control_mode
  global_speed_factor :: real
  gamepad_controller :: motion_gamepad
  tasks :: "task list"

definition motion_manager_init ::
  "bool \<Rightarrow> (int \<times> json) list \<Rightarrow> int \<Rightarrow> real \<Rightarrow> motion_manager" where
  "motion_manager_init asc cfg default_gamepad_animation_layer initial_gamepad_speed_modifier =
     \<lparr>current_control_mode = Idle,
      global_speed_factor = 1.0,
      gamepad_controller =
        motion_gamepad_init asc cfg default_gamepad_animation_layer
          initial_gamepad_speed_modifier,
      tasks = []\<rparr>"

definition set_global_speed_factor :: "motion_manager \<Rightarrow> real \<Rightarrow> motion_manager" where
  "set_global_speed_factor m factor =
     (if 0.1 \<le> factor \<and> factor \<le> 1.0
      then m\<lparr>global_speed_factor := factor,
             gamepad_controller :=
               update_speed_factor_from_global (gamepad_controller m) factor\<rparr>
      else m)"

definition suspend :: "motion_manager \<Rightarrow> task \<Rightarrow> motion_manager" where
  "suspend m t = m\<lparr>tasks := tasks m @ [t]\<rparr>"

text \<open>
  \<^verbatim>\<open>activate_gamepad_control\<close> up to its first await: nothing to do in gamepad mode;
  otherwise it awaits \<^verbatim>\<open>clear_emergency_stop\<close>, then \<^verbatim>\<open>start_processing\<close>
  (\<open>init_ok\<close> is what \<^verbatim>\<open>initialize_robot()\<close> will return there), and sets the mode
  when it resumes.
\<close>

definition activate_gamepad_control :: "motion_manager \<Rightarrow> bool \<Rightarrow> motion_manager" where
  "activate_gamepad_control m init_ok =
     (if current_control_mode m = GamepadMode then m
      else suspend m (ActivateClearWaiting init_ok))"

text \<open>
  \<^verbatim>\<open>deactivate_gamepad_control\<close> up to its await of \<^verbatim>\<open>stop_processing\<close>.
\<close>

definition deactivate_gamepad_control :: "motion_manager \<Rightarrow> bool \<Rightarrow> motion_manager" where
  "deactivate_gamepad_control m called_by_emergency_stop =
     (if current_control_mode m = GamepadMode \<or> current_control_mode m = EmergencyStopped
      then suspend m (DeactivateStopWaiting called_by_emergency_stop)
      else m)"

text \<open>
  \<^verbatim>\<open>_trigger_internal_emergency_stop\<close> up to its await: the mode is written first, and
  \<^verbatim>\<open>trigger_emergency_stop\<close> of the gamepad controller, which sets the flag and stops
  the robot, runs later on a pool thread.
\<close>

definition trigger_internal_emergency_stop :: "motion_manager \<Rightarrow> motion_manager" where
  "trigger_internal_emergency_stop m =
     (if current_control_mode m \<noteq> EmergencyStopped
      then suspend (m\<lparr>current_control_mode := EmergencyStopped\<rparr>) TriggerWaiting
      else m)"

text \<open>
  What \<^verbatim>\<open>_handle_gamepad_payload_from_tablet\<close> reads from the payload:
  \<^verbatim>\<open>payload.get("stick_button_states", {})\<close> and, from it, the two stick buttons.
  \<open>None\<close> stands for the \<^verbatim>\<open>AttributeError\<close> of a \<^verbatim>\<open>.get\<close> on something that
  is not a dict.
\<close>

definition stick_pressed :: "json \<Rightarrow> bool option" where
  "stick_pressed payload =
     (case payload of
        JObj p \<Rightarrow>
          (case dict_get p ''stick_button_states'' (JObj []) of
             JObj stick_buttons \<Rightarrow>
               Some (truthy (dict_get stick_buttons ''l3_pressed'' (JBool False)) \<or>
                     truthy (dict_get stick_buttons ''r3_pressed'' (JBool False)))
           | _ \<Rightarrow> None)
      | _ \<Rightarrow> None)"

text \<open>
  \<^verbatim>\<open>
  if (l3_pressed or r3_pressed) and self._current_control_mode != "emergency_stopped":
      await self._trigger_internal_emergency_stop()
      return
  if self._current_control_mode == "emergency_stopped" and not (l3_pressed or r3_pressed):
      await self._clear_internal_emergency_stop()
  if self._current_control_mode == "gamepad":
      self.gamepad_controller.update_gamepad_state(payload)
  \<close>
  The last statement, which the handler reaches at once or when it resumes after
  \<^verbatim>\<open>_clear_internal_emergency_stop\<close>:
\<close>

definition forward_payload :: "motion_manager \<Rightarrow> json \<Rightarrow> motion_manager" where
  "forward_payload m payload =
     (if current_control_mode m = GamepadMode
      then m\<lparr>gamepad_controller := update_gamepad_state (gamepad_controller m) payload\<rparr>
      else m)"

text \<open>
  \<^verbatim>\<open>_clear_internal_emergency_stop\<close> up to its await, as the payload handler calls it:
  in emergency stop it awaits \<^verbatim>\<open>clear_emergency_stop\<close> of the gamepad controller
  before it writes the mode, and the suspended task keeps the payload with which the
  handler goes on afterwards; in another mode it returns at once and the handler goes on.
\<close>

definition clear_internal_emergency_stop :: "motion_manager \<Rightarrow> json \<Rightarrow> motion_manager" where
  "clear_internal_emergency_stop m payload =
     (if current_control_mode m = EmergencyStopped
      then suspend m (ClearWaiting payload)
      else forward_payload m payload)"

text \<open>
  The handler up to its first await or, when it awaits nothing, to its end.
\<close>

definition handle_gamepad_payload_from_tablet ::
  "motion_manager \<Rightarrow> json \<Rightarrow> py_exn + motion_manager" where
  "handle_gamepad_payload_from_tablet m payload =
     (case stick_pressed payload of
        None \<Rightarrow> Inl AttributeError
      | Some pressed \<Rightarrow>
          if pressed \<and> current_control_mode m \<noteq> EmergencyStopped
          then Inr (trigger_internal_emergency_stop m)
          else if current_control_mode m = EmergencyStopped \<and> \<not> pressed
          then Inr (clear_internal_emergency_stop m payload)
          else Inr (forward_payload m payload))"

definition handle_gamepad_emergency_stop_event :: "motion_manager \<Rightarrow> motion_manager" where
  "handle_gamepad_emergency_stop_event m = trigger_internal_emergency_stop m"

text \<open>
  The next step of the suspended handler \<open>n\<close>: the call it waits for runs on the pool
  thread, or the handler resumes on the event loop after the call has returned.
  \<^verbatim>\<open>_clear_internal_emergency_stop\<close> resumes by setting the mode to "gamepad",
  \<^verbatim>\<open>activate_gamepad_control\<close> by setting it to "gamepad" or "idle" as
  \<^verbatim>\<open>start_processing\<close> returned, and \<^verbatim>\<open>deactivate_gamepad_control\<close> by setting it
  to "idle" unless the stop is part of an emergency stop and the mode is
  "emergency_stopped". \<^verbatim>\<open>stop_processing\<close> takes two steps, before and after its
  join.
\<close>

definition set_task :: "motion_manager \<Rightarrow> nat \<Rightarrow> task \<Rightarrow> motion_manager" where
  "set_task m n t = m\<lparr>tasks := (tasks m)[n := t]\<rparr>"

definition on_gamepad ::
  "motion_manager \<Rightarrow> (motion_gamepad \<Rightarrow> motion_gamepad) \<Rightarrow> motion_manager" where
  "on_gamepad m f = m\<lparr>gamepad_controller := f (gamepad_controller m)\<rparr>"

definition run_task :: "motion_manager \<Rightarrow> nat \<Rightarrow> motion_manager" where
  "run_task m n =
     (if n < length (tasks m) then
        (case tasks m ! n of
           TriggerWaiting \<Rightarrow> set_task (on_gamepad m trigger_emergency_stop) n TaskDone
         | ClearWaiting payload \<Rightarrow>
             set_task (on_gamepad m clear_emergency_stop) n (ClearReturned payload)
         | ClearReturned payload \<Rightarrow>
             set_task (forward_payload (m\<lparr>current_control_mode := GamepadMode\<rparr>) payload)
               n TaskDone
         | ActivateClearWaiting init_ok \<Rightarrow>
             set_task (on_gamepad m clear_emergency_stop) n (ActivateStartWaiting init_ok)
         | ActivateStartWaiting init_ok \<Rightarrow>
             (case start_processing (gamepad_controller m) init_ok of
                (started, g) \<Rightarrow>
                  set_task (m\<lparr>gamepad_controller := g\<rparr>) n (ActivateStartReturned started))
         | ActivateStartReturned started \<Rightarrow>
             set_task (m\<lparr>current_control_mode := (if started then GamepadMode else Idle)\<rparr>)
               n TaskDone
         | DeactivateStopWaiting by_estop \<Rightarrow>
             set_task (on_gamepad m stop_processing_signal) n (DeactivateJoining by_estop)
         | DeactivateJoining by_estop \<Rightarrow>
             set_task (on_gamepad m (\<lambda>g. stop_processing_after_join g by_estop)) n
               (DeactivateStopReturned by_estop)
         | DeactivateStopReturned by_estop \<Rightarrow>
             set_task
               (if by_estop \<and> current_control_mode m = EmergencyStopped then m
                else m\<lparr>current_control_mode := Idle\<rparr>)
               n TaskDone
         | TaskDone \<Rightarrow> m)
      else m)"

subsection \<open>The motion subsystem as a transition system\<close>

text \<open>
  What can happen to the motion subsystem: a handler of the manager starts (a payload or
  an explicit emergency stop from the tablet, activation, deactivation, a new speed
  factor) and runs to its first await, a suspended handler takes its next step, or a
  worker thread of the gamepad controller takes its next step. A handler that raises
  leaves the state as it was: the only exception is raised while the payload is read,
  before anything is written.
\<close>

datatype motion_event =
    EvPayload json
  | EvEmergencyStop
  | EvActivate bool
  | EvDeactivate bool
  | EvSetSpeed real
  | EvTask nat
  | EvWorker nat

fun motion_step :: "motion_manager \<Rightarrow> motion_event \<Rightarrow> motion_manager" where
  "motion_step m (EvPayload p) =
     (case handle_gamepad_payload_from_tablet m p of Inl e \<Rightarrow> m | Inr m' \<Rightarrow> m')"
| "motion_step m EvEmergencyStop = handle_gamepad_emergency_stop_event m"
| "motion_step m (EvActivate init_ok) = activate_gamepad_control m init_ok"
| "motion_step m (EvDeactivate by_estop) = deactivate_gamepad_control m by_estop"
| "motion_step m (EvSetSpeed f) = set_global_speed_factor m f"
| "motion_step m (EvTask n) = run_task m n"
| "motion_step m (EvWorker i) = on_gamepad m (\<lambda>g. worker_step g i)"

definition motion_run :: "motion_manager \<Rightarrow> motion_event list \<Rightarrow> motion_manager" where
  "motion_run m evs = foldl motion_step m evs"

text \<open>
  The calls a step adds to the hardware controller's record, and the velocity commands
  among the calls of a record.
\<close>

definition new_hw_calls :: "motion_manager \<Rightarrow> motion_manager \<Rightarrow> hw_call list" where
  "new_hw_calls m m' =
     drop (length (hw_calls (gamepad_controller m))) (hw_calls (gamepad_controller m'))"


definition estop_flag :: "motion_manager \<Rightarrow> bool" where
  "estop_flag m = emergency_stop_active_flag (gamepad_controller m)"

subsection \<open>TabletInterface.py and tabletserver/Endpoints.py: inbound dispatch\<close>

text \<open>
  The callbacks the orchestrator may have installed on the interface (\<^verbatim>\<open>None\<close> until
  it does), the tasks \<^verbatim>\<open>asyncio.create_task\<close> schedules for them, and what handling
  one frame does: frames sent to a socket, tasks scheduled, warnings and errors logged.
\<close>

record tablet_callbacks =
  on_input_received :: bool
  on_config_received :: bool
  on_gamepad_payload_received :: bool
  on_gamepad_emergency_stop :: bool

datatype gateway_task =
    OnInputReceived json
  | OnConfigReceived json
  | OnGamepadPayloadReceived json
  | OnGamepadEmergencyStop

datatype 'ws gateway_effect =
    SendText 'ws json
  | CreateTask gateway_task
  | LogLine log_level string

definition msg_unknown_type :: string where
  "msg_unknown_type = ''Tipo de mensaje desconocido o no manejable''"

definition msg_callback_missing :: string where
  "msg_callback_missing = ''Callback no configurado''"

text \<open>
  \<^verbatim>\<open>handle_client_message(message_type, payload, websocket)\<close>. In the gamepad branch
  the stick buttons are read as in the motion manager; \<open>Inl\<close> is the
  \<^verbatim>\<open>AttributeError\<close> of a payload that is not a dict of dicts.
\<close>

definition handle_client_message ::
  "tablet_callbacks \<Rightarrow> json \<Rightarrow> json \<Rightarrow> py_exn + 'ws gateway_effect list" where
  "handle_client_message cb message_type payload =
     (if message_type = JStr MSG_TYPE_INPUT then
        Inr (if on_input_received cb then [CreateTask (OnInputReceived payload)]
             else [LogLine LWarning msg_callback_missing])
      else if message_type = JStr MSG_TYPE_CONFIG then
        Inr (if on_config_received cb then [CreateTask (OnConfigReceived payload)]
             else [LogLine LWarning msg_callback_missing])
      else if message_type = JStr MSG_TYPE_GAMEPAD_STATE then
        (case stick_pressed payload of
           None \<Rightarrow> Inl AttributeError
         | Some True \<Rightarrow>
             Inr (if on_gamepad_emergency_stop cb then [CreateTask OnGamepadEmergencyStop]
                  else [LogLine LError msg_callback_missing])
         | Some False \<Rightarrow>
             Inr (if on_gamepad_payload_received cb
                  then [CreateTask (OnGamepadPayloadReceived payload)]
                  else [LogLine LWarning msg_callback_missing]))
      else Inr [LogLine LWarning msg_unknown_type])"

text \<open>
  One turn of the receive loop of \<^verbatim>\<open>websocket_bidirectional_endpoint\<close>: deserialize,
  dispatch, and answer a \<^verbatim>\<open>ValueError\<close> or any other exception with a system error
  frame on the same socket.
\<close>

definition websocket_receive ::
  "tablet_callbacks \<Rightarrow> 'ws \<Rightarrow> string \<Rightarrow> string + json \<Rightarrow> 'ws gateway_effect list" where
  "websocket_receive cb websocket ts loaded =
     (case deserialize_client_message loaded of
        Inl e_val \<Rightarrow>
          [LogLine LError e_val,
           SendText websocket
             (craft_system_message ts ''Servidor'' ''error''
                (''Mensaje con formato invalido: '' @ e_val) None)]
      | Inr (JObj client_msg_dict) \<Rightarrow>
          (case handle_client_message cb (dict_get client_msg_dict ''type'' JNull)
                  (dict_get client_msg_dict ''payload'' JNull) of
             Inr effects \<Rightarrow> effects
           | Inl e_proc \<Rightarrow>
               [LogLine LError ''Error procesando mensaje'',
                SendText websocket
                  (craft_system_message ts ''Servidor'' ''error''
                     ''Error interno del servidor al procesar el mensaje.'' None)])
      | Inr other \<Rightarrow>
          [LogLine LError ''Error procesando mensaje'',
           SendText websocket
             (craft_system_message ts ''Servidor'' ''error''
                ''Error interno del servidor al procesar el mensaje.'' None)])"

fun sent_frames :: "'ws gateway_effect list \<Rightarrow> ('ws \<times> json) list" where
  "sent_frames [] = []"
| "sent_frames (SendText ws frame # es) = (ws, frame) # sent_frames es"
| "sent_frames (e # es) = sent_frames es"

text \<open>
  The wiring of \<^verbatim>\<open>_setup_main_callbacks\<close>: the gamepad callbacks of the interface are
  the two handlers of the motion manager. Starting the scheduled tasks of one frame on the
  motion manager, each running to its first await:
\<close>

fun run_gateway_tasks :: "motion_manager \<Rightarrow> 'ws gateway_effect list \<Rightarrow> motion_manager" where
  "run_gateway_tasks m [] = m"
| "run_gateway_tasks m (CreateTask (OnGamepadPayloadReceived p) # es) =
     run_gateway_tasks (motion_step m (EvPayload p)) es"
| "run_gateway_tasks m (CreateTask OnGamepadEmergencyStop # es) =
     run_gateway_tasks (motion_step m EvEmergencyStop) es"
| "run_gateway_tasks m (e # es) = run_gateway_tasks m es"

text \<open>The orchestrator's wiring, with every callback installed.\<close>

definition all_callbacks :: tablet_callbacks where
  "all_callbacks = \<lparr>on_input_received = True, on_config_received = True,
                     on_gamepad_payload_received = True, on_gamepad_emergency_stop = True\<rparr>"

text \<open>The frames of the concrete checks.\<close>

definition ping_frame :: json where
  "ping_frame = JObj [(''type'', JStr ''ping''), (''payload'', JObj [])]"

definition malformed_gamepad_frame :: json where
  "malformed_gamepad_frame =
     JObj [(''type'', JStr ''gamepad_state''),
           (''payload'', JObj [(''left_stick'', JObj [(''x'', JNum 0)])])]"

definition right_stick_missing :: string where
  "right_stick_missing = ''Mensaje 'gamepad_state' invalido: 'payload.right_stick' es faltante.''"

definition is_system_error_frame :: "json \<Rightarrow> bool" where
  "is_system_error_frame frame =
     (case frame of
        JObj f \<Rightarrow>
          dict_get f ''type'' JNull = JStr MSG_TYPE_SYSTEM \<and>
          (case dict_get f ''payload'' JNull of
             JObj p \<Rightarrow> dict_get p ''level'' JNull = JStr ''error''
           | _ \<Rightarrow> False)
      | _ \<Rightarrow> False)"

subsection \<open>Concrete payloads and runs\<close>

text \<open>
  A well-formed gamepad payload with the left stick at \<open>(x, y)\<close> and the L3 button as
  given.
\<close>

definition demo_payload :: "real \<Rightarrow> real \<Rightarrow> bool \<Rightarrow> json" where
  "demo_payload x y l3 =
     JObj [(''left_stick'', JObj [(''x'', JNum x), (''y'', JNum y)]),
           (''right_stick'', JObj [(''x'', JNum 0), (''y'', JNum 0)]),
           (''dpad_events'', JObj [(''up'', JBool False), (''down'', JBool False),
                                   (''left'', JBool False), (''right'', JBool False)]),
           (''action_button_events'', JObj [(''a'', JBool False), (''b'', JBool False),
                                            (''x'', JBool False), (''y'', JBool False)]),
           (''stick_button_states'', JObj [(''l3_pressed'', JBool l3),
                                           (''r3_pressed'', JBool False)])]"

text \<open>
  A fresh manager, with the speed modifier 0.5. The activation of gamepad control as the
  handler \<open>n\<close>, run to its end: \<^verbatim>\<open>clear_emergency_stop\<close>, \<^verbatim>\<open>start_processing\<close>
  and the mode.
\<close>

definition fresh_manager :: motion_manager where
  "fresh_manager = motion_manager_init False [] 0 0.5"

definition activation :: "nat \<Rightarrow> motion_event list" where
  "activation n = [EvActivate True, EvTask n, EvTask n, EvTask n]"

text \<open>
  Gamepad control is active and thread 0 waits. A payload with the stick pushed arrives
  and the thread takes it. Then the tablet reports L3 pressed: the emergency stop handler
  sets the mode and \<^verbatim>\<open>trigger_emergency_stop\<close> runs on its pool thread, while the
  worker thread still holds the payload.
\<close>

definition estop_race :: "motion_event list" where
  "estop_race =
     activation 0 @
     [EvWorker 0, EvPayload (demo_payload 0.5 0.5 False), EvWorker 0, EvEmergencyStop, EvTask 1]"

text \<open>
  From idle, where no thread has been started: a payload with L3 pressed, handled to its
  end, then a payload with both stick buttons released and the stick pushed, handled to
  its end.
\<close>

definition idle_estop_cycle :: "motion_event list" where
  "idle_estop_cycle =
     [EvPayload (demo_payload 0 0 True), EvTask 0,
      EvPayload (demo_payload 0.5 0.5 False), EvTask 1, EvTask 1]"



subsection \<open>Init\_System.py: stripping animation tags\<close>

text \<open>
  A Python \<^verbatim>\<open>str\<close> is taken here as a list of characters from the first 256 code
  points. On them \<^verbatim>\<open>\s\<close> of the \<^verbatim>\<open>re\<close> module and the whitespace of
  \<^verbatim>\<open>str.strip()\<close> are the same set: tab to carriage return, the four separators
  0x1C to 0x1F, the space, NEL (0x85) and the no-break space (0xA0).
\<close>

definition is_space :: "char \<Rightarrow> bool" where
  "is_space c =
     (let n = (of_char c :: nat)
      in (9 \<le> n \<and> n \<le> 13) \<or> (28 \<le> n \<and> n \<le> 32) \<or> n = 133 \<or> n = 160)"

text \<open>A literal of the pattern: the rest of the input after it, if the input starts with it.\<close>

fun drop_prefix :: "string \<Rightarrow> string \<Rightarrow> string option" where
  "drop_prefix [] s = Some s"
| "drop_prefix (p # ps) [] = None"
| "drop_prefix (p # ps) (c # cs) = (if p = c then drop_prefix ps cs else None)"

text \<open>
  The three alternatives of the pattern
  \<^verbatim>\<open>\s*\^runTag\([^)]*\)\s*|\s*\^startTag\([^)]*\)\s*|\s*\^waitTag\([^)]*\)\s*\<close>
  differ in the keyword only, and they are tried in this order.
\<close>

definition match_keyword :: "string \<Rightarrow> string option" where
  "match_keyword s =
     (case drop_prefix ''^runTag('' s of
        Some r \<Rightarrow> Some r
      | None \<Rightarrow>
          (case drop_prefix ''^startTag('' s of
             Some r \<Rightarrow> Some r
           | None \<Rightarrow> drop_prefix ''^waitTag('' s))"

text \<open>
  A match of the pattern at the start of \<open>s\<close>, as the backtracking matcher finds it:
  \<^verbatim>\<open>\s*\<close> takes the whole run of whitespace (the next character of a match is
  \<^verbatim>\<open>^\<close>, so giving characters back cannot help), \<^verbatim>\<open>[^)]*\<close> runs to the first
  \<^verbatim>\<open>)\<close>, which must be there, and the final \<^verbatim>\<open>\s*\<close> takes all the whitespace that
  follows. The result is the input left after the match.
\<close>

definition match_tag :: "string \<Rightarrow> string option" where
  "match_tag s =
     (case match_keyword (dropWhile is_space s) of
        None \<Rightarrow> None
      | Some body \<Rightarrow>
          (case dropWhile (\<lambda>c. c \<noteq> CHR '')'') body of
             [] \<Rightarrow> None
           | c # rest \<Rightarrow> Some (dropWhile is_space rest)))"

text \<open>
  \<^verbatim>\<open>re.sub(pattern, ' ', text)\<close> for this pattern: from left to right, a match is
  replaced by one space and the scan goes on after it; where no match starts, the
  character is copied. A match is never empty.
\<close>

function sub_tags :: "string \<Rightarrow> string" where
  "sub_tags [] = []"
| "sub_tags (c # cs) =
     (case match_tag (c # cs) of
        Some rest \<Rightarrow> CHR '' '' # sub_tags rest
      | None \<Rightarrow> c # sub_tags cs)"
  by pat_completeness auto
termination
proof (relation "measure length")
  show "wf (measure length)" by simp
next
  fix c :: char and cs rest :: string
  assume m: "match_tag (c # cs) = Some rest"
  have dp: "\<And>p s r. drop_prefix p s = Some r \<Longrightarrow> length r + length p = length s"
  proof -
    fix p s r
    show "drop_prefix p s = Some r \<Longrightarrow> length r + length p = length s"
      by (induction p s rule: drop_prefix.induct) (auto split: if_splits)
  qed
  from m obtain body where b: "match_keyword (dropWhile is_space (c # cs)) = Some body"
    by (auto simp add: match_tag_def split: option.splits)
  then have "length body < length (dropWhile is_space (c # cs))"
    by (auto simp add: match_keyword_def split: option.splits dest!: dp)
  moreover have "length (dropWhile is_space (c # cs)) \<le> length (c # cs)"
    by (rule length_dropWhile_le)
  ultimately have lb: "length body < length (c # cs)" by simp
  from m b obtain d r where r: "dropWhile (\<lambda>c. c \<noteq> CHR '')'') body = d # r"
      and rest: "rest = dropWhile is_space r"
    by (auto simp add: match_tag_def split: list.splits)
  have "length (d # r) \<le> length body" unfolding r [symmetric] by (rule length_dropWhile_le)
  moreover have "length rest \<le> length r" unfolding rest by (rule length_dropWhile_le)
  ultimately have "length rest < length (c # cs)" using lb by simp
  then show "(rest, c # cs) \<in> measure length" by simp
next
  fix c :: char and cs :: string
  show "(cs, c # cs) \<in> measure length" by simp
qed

text \<open>
  \<^verbatim>\<open>re.sub(r'\s+', ' ', s)\<close>: every run of whitespace becomes one space; and
  \<^verbatim>\<open>.strip()\<close>: whitespace is removed from both ends.
\<close>

function collapse_ws :: "string \<Rightarrow> string" where
  "collapse_ws [] = []"
| "collapse_ws (c # cs) =
     (if is_space c then CHR '' '' # collapse_ws (dropWhile is_space cs)
      else c # collapse_ws cs)"
  by pat_completeness auto
termination
  by (relation "measure length") (simp_all add: length_dropWhile_le less_Suc_eq_le)

definition strip :: "string \<Rightarrow> string" where
  "strip s = rev (dropWhile is_space (rev (dropWhile is_space s)))"

text \<open>
  \<^verbatim>\<open>
  def _strip_animation_tags(self, text_with_tags):
      if not text_with_tags: return ""
      cleaned_text = re.sub(r'\s*\^runTag\([^)]*\)\s*|...', ' ', text_with_tags)
      cleaned_text = re.sub(r'\s+', ' ', cleaned_text).strip()
      return cleaned_text
  \<close>
\<close>

definition strip_animation_tags :: "string \<Rightarrow> string" where
  "strip_animation_tags text_with_tags =
     (if text_with_tags = [] then [] else strip (collapse_ws (sub_tags text_with_tags)))"

subsection \<open>ConversationManager.py: \<^verbatim>\<open>get_ai_response\<close>\<close>

text \<open>
  The active client is a \<^verbatim>\<open>GPTAPIClient\<close> (with its default model) or a
  \<^verbatim>\<open>LocalLlamaClient\<close> (with the base name of its model path), or there is none. The
  persistence layer is the list of the interactions written so far: conversation id,
  role and content. The content is kept as the dict that \<^verbatim>\<open>json.dumps\<close> is given.
\<close>

datatype ai_client = GPTAPIClient string | LocalLlamaClient string

record conversation_manager =
  current_conversation_id :: "int option"
  prompt_builder_set :: bool
  active_ai_client :: "ai_client option"
  current_ai_backend_type :: string
  interactions :: "(int \<times> string \<times> json) list"

text \<open>
  What the collaborators do during one request: the clock, whether the prompt builder
  returns, whether each \<^verbatim>\<open>add_interaction\<close> stores its row, what
  \<^verbatim>\<open>generate_response\<close> does (\<open>Inl\<close>: it raises; \<open>Inr\<close>: it returns the string or
  \<^verbatim>\<open>None\<close>), whether \<^verbatim>\<open>get_ai_response\<close> fails in a way it does not handle itself,
  whether each send on the tablet interface and the speech call raise, and what
  \<^verbatim>\<open>stt_system.start()\<close> achieves.
\<close>

record request_env =
  clock :: string
  prompt_build_ok :: bool
  user_write_ok :: bool
  backend_reply :: "py_exn + string option"
  assistant_write_ok :: bool
  cm_unexpected :: "py_exn option"
  send_output_exn :: "py_exn option"
  say_exn :: "py_exn option"
  send_system_exn :: "py_exn option"
  stt_start_result :: bool

definition msg_no_conversation :: string where
  "msg_no_conversation = ''^runTag(error)Error: No hay una conversacion activa.''"

definition msg_no_personality :: string where
  "msg_no_personality = ''^runTag(error)Error: La personalidad no esta configurada correctamente.''"

definition msg_no_engine :: string where
  "msg_no_engine = ''^runTag(error)Error: El motor de IA no esta inicializado.''"

definition msg_ai_disabled :: string where
  "msg_ai_disabled = ''El modo de IA esta desactivado.''"

definition msg_prompt_problem :: string where
  "msg_prompt_problem =
     ''^runTag(embarrassed)Tuve un problema preparando el contexto de mi respuesta.''"

definition msg_backend_problem :: "string \<Rightarrow> string" where
  "msg_backend_problem backend = ''^runTag(sad)Tuve un problema con mi IA ('' @ backend @ '').''"

definition msg_fallback_empty :: string where
  "msg_fallback_empty = ''^runTag(confused)No estoy seguro de que responder.''"

definition images_truthy :: "string list option \<Rightarrow> bool" where
  "images_truthy images = (case images of None \<Rightarrow> False | Some xs \<Rightarrow> xs \<noteq> [])"

definition user_content :: "string \<Rightarrow> string \<Rightarrow> string \<Rightarrow> string list option \<Rightarrow> json" where
  "user_content ts user_input source images =
     JObj [(''type'', JStr ''input''), (''timestamp_original'', JStr ts),
           (''payload_data'',
            JObj ([(''text'', JStr user_input), (''source'', JStr source)] @
                  (case images of
                     Some xs \<Rightarrow> if xs \<noteq> [] then [(''image_info_count'', JNum (real (length xs)))]
                                else []
                   | None \<Rightarrow> [])))]"

definition assistant_content :: "string \<Rightarrow> string \<Rightarrow> string \<Rightarrow> json" where
  "assistant_content ts text model_used =
     JObj [(''type'', JStr ''output''), (''timestamp_original'', JStr ts),
           (''payload_data'', JObj [(''text'', JStr text), (''model_used'', JStr model_used)])]"

definition model_info :: "ai_client \<Rightarrow> string" where
  "model_info client = (case client of GPTAPIClient m \<Rightarrow> m | LocalLlamaClient m \<Rightarrow> m)"

text \<open>
  \<^verbatim>\<open>backend_type = self.current_ai_backend_type or "unknown_backend"\<close> and
  \<^verbatim>\<open>f"{backend_type}_{model_info}"\<close>.
\<close>

definition model_used :: "conversation_manager \<Rightarrow> ai_client \<Rightarrow> string" where
  "model_used cm client =
     (if current_ai_backend_type cm = [] then ''unknown_backend'' else current_ai_backend_type cm) @
     ''_'' @ model_info client"

text \<open>\<^verbatim>\<open>add_interaction\<close> under \<^verbatim>\<open>try\<close>: the row is stored, or the failure is logged.\<close>

definition add_interaction ::
  "conversation_manager \<Rightarrow> bool \<Rightarrow> int \<Rightarrow> string \<Rightarrow> json \<Rightarrow> conversation_manager" where
  "add_interaction cm ok conv_id role content =
     (if ok then cm\<lparr>interactions := interactions cm @ [(conv_id, role, content)]\<rparr> else cm)"

text \<open>
  The part of \<^verbatim>\<open>get_ai_response\<close> after its four guards, for the conversation
  \<open>conv\<close> and the client \<open>client\<close>: build the prompt, store the user turn, ask the
  backend, store the assistant turn (the reply, the apology for a backend exception, or
  the fallback for an empty reply), return the text.
\<close>

definition answer_with_backend ::
  "conversation_manager \<Rightarrow> request_env \<Rightarrow> int \<Rightarrow> ai_client \<Rightarrow> string \<Rightarrow> string \<Rightarrow>
   string list option \<Rightarrow> string \<times> conversation_manager" where
  "answer_with_backend cm env conv client user_input source images =
     (if \<not> prompt_build_ok env then (msg_prompt_problem, cm)
      else
        (let cm1 = add_interaction cm (user_write_ok env) conv ''user''
                     (user_content (clock env) user_input source images);
             raw_ai_response =
               (case backend_reply env of
                  Inl e \<Rightarrow> Some (msg_backend_problem (current_ai_backend_type cm))
                | Inr r \<Rightarrow> r)
         in case raw_ai_response of
              Some r \<Rightarrow>
                if r \<noteq> [] then
                  (r, add_interaction cm1 (assistant_write_ok env) conv ''assistant''
                        (assistant_content (clock env) r (model_used cm client)))
                else
                  (msg_fallback_empty,
                   add_interaction cm1 (assistant_write_ok env) conv ''assistant''
                     (assistant_content (clock env) msg_fallback_empty ''fallback_empty''))
            | None \<Rightarrow>
                (msg_fallback_empty,
                 add_interaction cm1 (assistant_write_ok env) conv ''assistant''
                   (assistant_content (clock env) msg_fallback_empty ''fallback_empty''))))"

text \<open>
  \<^verbatim>\<open>
  if self.current_conversation_id is None: return "^runTag(error)Error: No hay ..."
  if not self.prompt_builder: return "^runTag(error)Error: La personalidad ..."
  if not self.ai_client and self.current_ai_backend_type != "none": return "^runTag(error)..."
  elif self.current_ai_backend_type == "none" or self.ai_client is None: return "El modo ..."
  \<close>
\<close>

definition get_ai_response ::
  "conversation_manager \<Rightarrow> request_env \<Rightarrow> string \<Rightarrow> string \<Rightarrow> string list option \<Rightarrow>
   string \<times> conversation_manager" where
  "get_ai_response cm env user_input source images =
     (case current_conversation_id cm of
        None \<Rightarrow> (msg_no_conversation, cm)
      | Some conv \<Rightarrow>
          if \<not> prompt_builder_set cm then (msg_no_personality, cm)
          else (case active_ai_client cm of
                  None \<Rightarrow>
                    if current_ai_backend_type cm \<noteq> ''none'' then (msg_no_engine, cm)
                    else (msg_ai_disabled, cm)
                | Some client \<Rightarrow>
                    if current_ai_backend_type cm = ''none'' then (msg_ai_disabled, cm)
                    else answer_with_backend cm env conv client user_input source images))"

subsection \<open>Init\_System.py: the orchestrator's handlers\<close>

text \<open>
  What the orchestrator does to its collaborators, in order: sends on the tablet
  interface (each is one broadcast frame), the speech call, stopping and starting the
  recognition, clearing and setting the busy condition
  \<^verbatim>\<open>robot_is_processing_or_replying\<close> (set means available).
\<close>

datatype orch_effect =
    SendOutput string string string
  | SendSystemMessage string string string
  | SendPartialSttResult string bool
  | SayTextWithTags string bool
  | SttStop
  | SttStart
  | BusyClear
  | BusySet

record system_composer =
  has_conversation_manager :: bool
  has_tablet_interface :: bool
  has_animation_speech_controller :: bool
  has_stt_system :: bool
  busy_available :: bool
  stt_running :: bool
  conversation :: conversation_manager
  effects :: "orch_effect list"

definition emit :: "system_composer \<Rightarrow> orch_effect \<Rightarrow> system_composer" where
  "emit sc e = sc\<lparr>effects := effects sc @ [e]\<rparr>"

text \<open>
  A send that raises is not counted as a frame; the exception goes to the caller.
\<close>

definition send_output ::
  "system_composer \<Rightarrow> request_env \<Rightarrow> string \<Rightarrow> string \<Rightarrow> string \<Rightarrow>
   py_exn option \<times> system_composer" where
  "send_output sc env sender_name text original_input_source =
     (case send_output_exn env of
        Some e \<Rightarrow> (Some e, sc)
      | None \<Rightarrow> (None, emit sc (SendOutput sender_name text original_input_source)))"

definition send_system_message ::
  "system_composer \<Rightarrow> request_env \<Rightarrow> string \<Rightarrow> string \<Rightarrow> string \<Rightarrow>
   py_exn option \<times> system_composer" where
  "send_system_message sc env sender_name level text =
     (case send_system_exn env of
        Some e \<Rightarrow> (Some e, sc)
      | None \<Rightarrow> (None, emit sc (SendSystemMessage sender_name level text)))"

definition msg_not_sure :: string where
  "msg_not_sure = ''No estoy seguro de como responder a eso.''"

definition msg_processing_problem :: string where
  "msg_processing_problem = ''Hubo un problema al procesar el mensaje.''"

definition msg_busy :: string where
  "msg_busy = ''Estoy procesando otra solicitud en este momento...''"

definition msg_no_manager :: string where
  "msg_no_manager = ''Error interno: Gestor de conversacion no disponible.''"

text \<open>
  The speech call in its own \<^verbatim>\<open>try\<close>: an exception of the speech controller is
  logged and goes no further.
\<close>

definition speak :: "system_composer \<Rightarrow> request_env \<Rightarrow> string \<Rightarrow> system_composer" where
  "speak sc env annotated_text =
     (if has_animation_speech_controller sc
      then (case say_exn env of
              None \<Rightarrow> emit sc (SayTextWithTags annotated_text True)
            | Some e \<Rightarrow> sc)
      else sc)"

text \<open>
  What the \<^verbatim>\<open>try\<close> block of \<^verbatim>\<open>_process_input_for_conversation\<close> does with the
  response: the stripped text goes to the tablet as an output message and the annotated
  text to the speech controller; for an empty response a canned text goes to the tablet.
\<close>

definition deliver_response ::
  "system_composer \<Rightarrow> request_env \<Rightarrow> string \<Rightarrow> string \<Rightarrow> py_exn option \<times> system_composer" where
  "deliver_response sc env ai_response_with_tags source =
     (if ai_response_with_tags \<noteq> [] then
        (if has_tablet_interface sc then
           (case send_output sc env ''Umebot''
                   (strip_animation_tags ai_response_with_tags) source of
              (Some e, sc2) \<Rightarrow> (Some e, sc2)
            | (None, sc2) \<Rightarrow> (None, speak sc2 env ai_response_with_tags))
         else (None, speak sc env ai_response_with_tags))
      else if has_tablet_interface sc
      then send_output sc env ''Umebot'' msg_not_sure source
      else (None, sc))"

text \<open>
  The \<^verbatim>\<open>try\<close> block: the response of the conversation manager, then its delivery.
\<close>

definition conversation_body ::
  "system_composer \<Rightarrow> request_env \<Rightarrow> string \<Rightarrow> string \<Rightarrow> string list option \<Rightarrow>
   py_exn option \<times> system_composer" where
  "conversation_body sc env user_text source images_b64 =
     (case cm_unexpected env of
        Some e \<Rightarrow> (Some e, sc)
      | None \<Rightarrow>
          (let r = get_ai_response (conversation sc) env user_text source images_b64
           in deliver_response (sc\<lparr>conversation := snd r\<rparr>) env (fst r) source))"

text \<open>The \<^verbatim>\<open>except Exception\<close> clause: a system error message to the tablet.\<close>

definition conversation_handler ::
  "py_exn option \<times> system_composer \<Rightarrow> request_env \<Rightarrow> py_exn option \<times> system_composer" where
  "conversation_handler outcome env =
     (case outcome of
        (None, sc) \<Rightarrow> (None, sc)
      | (Some e, sc) \<Rightarrow>
          if has_tablet_interface sc
          then send_system_message sc env ''SystemError'' ''error'' msg_processing_problem
          else (None, sc))"

text \<open>
  The \<^verbatim>\<open>finally\<close> clause: the busy condition is set again, and the recognition is
  started if it was stopped at entry and is not running.
\<close>

definition conversation_finally :: "system_composer \<Rightarrow> request_env \<Rightarrow> bool \<Rightarrow> system_composer" where
  "conversation_finally sc env was_stt_running =
     (let sc1 = (emit sc BusySet)\<lparr>busy_available := True\<rparr>
      in if has_stt_system sc1 \<and> was_stt_running \<and> \<not> stt_running sc1
         then (emit sc1 SttStart)\<lparr>stt_running := stt_start_result env\<rparr>
         else sc1)"

definition process_input_for_conversation ::
  "system_composer \<Rightarrow> request_env \<Rightarrow> string \<Rightarrow> string \<Rightarrow> string list option \<Rightarrow>
   py_exn option \<times> system_composer" where
  "process_input_for_conversation sc env user_text source images_b64 =
     (if user_text = [] \<and> \<not> images_truthy images_b64 then (None, sc)
      else if \<not> has_conversation_manager sc then
        (if has_tablet_interface sc
         then send_system_message sc env ''SystemError'' ''error'' msg_no_manager
         else (None, sc))
      else if \<not> busy_available sc then
        (if has_tablet_interface sc
         then send_system_message sc env ''Umebot'' ''info'' msg_busy
         else (None, sc))
      else
        (let was_stt_running = (has_stt_system sc \<and> stt_running sc);
             sc1 = (if was_stt_running then (emit sc SttStop)\<lparr>stt_running := False\<rparr> else sc);
             sc2 = (emit sc1 BusyClear)\<lparr>busy_available := False\<rparr>;
             outcome = conversation_handler
                         (conversation_body sc2 env user_text source images_b64) env
         in (fst outcome, conversation_finally (snd outcome) env was_stt_running)))"

text \<open>
  \<^verbatim>\<open>_handle_final_stt_segment\<close>: the final text goes to the tablet as a
  \<^verbatim>\<open>partial_stt_result\<close> with \<^verbatim>\<open>is_final=True\<close>, unless the robot is busy. The
  comment in the source: the UI is responsible for sending it back as an \<^verbatim>\<open>input\<close>
  message.
\<close>

definition handle_final_stt_segment :: "system_composer \<Rightarrow> string \<Rightarrow> system_composer" where
  "handle_final_stt_segment sc recognized_text =
     (if \<not> has_tablet_interface sc then sc
      else if busy_available sc then emit sc (SendPartialSttResult recognized_text True)
      else sc)"

text \<open>
  \<^verbatim>\<open>_setup_main_callbacks\<close> returns before it connects anything unless there are both
  a recognition system and a tablet interface; otherwise it installs, as the
  \<^verbatim>\<open>external_text_callback\<close> of the recognition system, a function that schedules
  \<^verbatim>\<open>_handle_final_stt_segment\<close> on the event loop. The recognition system is created
  with no callback. The result is whether the callback is installed.
\<close>

definition setup_main_callbacks :: "system_composer \<Rightarrow> bool" where
  "setup_main_callbacks sc = (has_stt_system sc \<and> has_tablet_interface sc)"

text \<open>
  \<^verbatim>\<open>STT_System._internal_text_callback\<close>, which the recognizer calls with each final
  text: an empty text, or one that is empty after \<^verbatim>\<open>strip()\<close>, goes no further; the
  stripped text is passed to the external callback if there is one and is lost otherwise.
\<close>

definition internal_text_callback ::
  "system_composer \<Rightarrow> bool \<Rightarrow> string \<Rightarrow> system_composer" where
  "internal_text_callback sc external_text_callback recognized_text =
     (if recognized_text = [] then sc
      else
        (let final_text = strip recognized_text in
         if final_text = [] then sc
         else if external_text_callback then handle_final_stt_segment sc final_text
         else sc))"

text \<open>The frames the sends of a trace put on the wire, with the time stamp \<open>ts\<close>.\<close>

fun broadcast_frames :: "string \<Rightarrow> orch_effect list \<Rightarrow> json list" where
  "broadcast_frames ts [] = []"
| "broadcast_frames ts (SendOutput sender text src # es) =
     craft_output_message ts sender text src # broadcast_frames ts es"
| "broadcast_frames ts (SendSystemMessage sender level text # es) =
     craft_system_message ts sender level text None # broadcast_frames ts es"
| "broadcast_frames ts (SendPartialSttResult text is_final # es) =
     craft_partial_stt_result_message ts text is_final # broadcast_frames ts es"
| "broadcast_frames ts (e # es) = broadcast_frames ts es"

definition frame_type :: "json \<Rightarrow> json" where
  "frame_type frame = (case frame of JObj f \<Rightarrow> dict_get f ''type'' JNull | _ \<Rightarrow> JNull)"

definition output_frames :: "string \<Rightarrow> orch_effect list \<Rightarrow> json list" where
  "output_frames ts es = filter (\<lambda>f. frame_type f = JStr MSG_TYPE_OUTPUT) (broadcast_frames ts es)"

text \<open>What a call added to the trace and to the persisted interactions.\<close>

definition new_effects :: "system_composer \<Rightarrow> system_composer \<Rightarrow> orch_effect list" where
  "new_effects sc sc' = drop (length (effects sc)) (effects sc')"

definition new_interactions ::
  "system_composer \<Rightarrow> system_composer \<Rightarrow> (int \<times> string \<times> json) list" where
  "new_interactions sc sc' =
     drop (length (interactions (conversation sc))) (interactions (conversation sc'))"

text \<open>Concrete orchestrators and environments for the checks.\<close>

definition demo_conversation :: conversation_manager where
  "demo_conversation =
     \<lparr>current_conversation_id = Some 1, prompt_builder_set = True,
      active_ai_client = Some (GPTAPIClient ''gpt-4o''),
      current_ai_backend_type = ''openai_gpt'', interactions = []\<rparr>"

definition demo_composer :: system_composer where
  "demo_composer =
     \<lparr>has_conversation_manager = True, has_tablet_interface = True,
      has_animation_speech_controller = True, has_stt_system = True,
      busy_available = True, stt_running = True,
      conversation = demo_conversation, effects = []\<rparr>"

definition no_ai_composer :: system_composer where
  "no_ai_composer =
     demo_composer\<lparr>conversation :=
       demo_conversation\<lparr>active_ai_client := None, current_ai_backend_type := ''none''\<rparr>\<rparr>"

definition calm_env :: request_env where
  "calm_env =
     \<lparr>clock = ''t'', prompt_build_ok = True, user_write_ok = True,
      backend_reply = Inr (Some ''^runTag(joy) Hola, soy Umebot.''),
      assistant_write_ok = True, cm_unexpected = None, send_output_exn = None,
      say_exn = None, send_system_exn = None, stt_start_result = True\<rparr>"

definition failing_backend_env :: request_env where
  "failing_backend_env = calm_env\<lparr>backend_reply := Inl (RuntimeError ''timeout'')\<rparr>"

definition stormy_env :: request_env where
  "stormy_env =
     calm_env\<lparr>cm_unexpected := Some (RuntimeError ''boom''),
              send_system_exn := Some (RuntimeError ''closed'')\<rparr>"

text \<open>
  The effects that are sends and speech, as opposed to the bracket of busy condition and
  recognition around them; and the relation between a state and a later one that differs
  by such effects and by the conversation only.
\<close>

fun is_io :: "orch_effect \<Rightarrow> bool" where
  "is_io (SendOutput a b c) = True"
| "is_io (SendSystemMessage a b c) = True"
| "is_io (SendPartialSttResult a b) = True"
| "is_io (SayTextWithTags a b) = True"
| "is_io e = False"

definition io_ext :: "system_composer \<Rightarrow> system_composer \<Rightarrow> bool" where
  "io_ext sc sc' =
     (\<exists>c mid. sc' = sc\<lparr>conversation := c, effects := effects sc @ mid\<rparr> \<and> list_all is_io mid)"

definition passes_guards :: "system_composer \<Rightarrow> string \<Rightarrow> string list option \<Rightarrow> bool" where
  "passes_guards sc user_text images_b64 =
     ((user_text \<noteq> [] \<or> images_truthy images_b64) \<and> has_conversation_manager sc \<and>
      busy_available sc)"

text \<open>
  When \<^verbatim>\<open>get_ai_response\<close> gets as far as the backend: none of its four guards
  returns and the prompt is built. And when, for the conversation \<open>conv\<close> and the client
  \<open>client\<close>, it also stores both turns.
\<close>

definition reaches_backend :: "conversation_manager \<Rightarrow> request_env \<Rightarrow> bool" where
  "reaches_backend cm env =
     (current_conversation_id cm \<noteq> None \<and> prompt_builder_set cm \<and>
      active_ai_client cm \<noteq> None \<and> current_ai_backend_type cm \<noteq> ''none'' \<and>
      prompt_build_ok env)"

definition full_exchange ::
  "conversation_manager \<Rightarrow> request_env \<Rightarrow> int \<Rightarrow> ai_client \<Rightarrow> bool" where
  "full_exchange cm env conv client =
     (current_conversation_id cm = Some conv \<and> prompt_builder_set cm \<and>
      active_ai_client cm = Some client \<and> current_ai_backend_type cm \<noteq> ''none'' \<and>
      prompt_build_ok env \<and> user_write_ok env \<and> assistant_write_ok env)"

subsection \<open>The GUI text as the specification words it\<close>

text \<open>
  What the specification says of the text shown in the GUI, in its own terms. A string
  matches the pattern \<^verbatim>\<open>\s*\^(run|start|wait)Tag\([^)]*\)\s*\<close> when it is whitespace,
  then \<^verbatim>\<open>^\<close>, one of the three keywords, \<^verbatim>\<open>Tag(\<close>, a body without \<^verbatim>\<open>)\<close>, then
  \<^verbatim>\<open>)\<close> and whitespace.
\<close>

definition tag_keywords :: "string list" where
  "tag_keywords = [''run'', ''start'', ''wait'']"

definition tag_match :: "string \<Rightarrow> bool" where
  "tag_match m =
     (\<exists>ws1 kw body ws2.
        m = ws1 @ ''^'' @ kw @ ''Tag('' @ body @ '')'' @ ws2 \<and>
        list_all is_space ws1 \<and> kw \<in> set tag_keywords \<and>
        CHR '')'' \<notin> set body \<and> list_all is_space ws2)"

text \<open>
  Replacing every match by a single space, as a substitution over the text from left to
  right: where a match starts, the longest one is replaced by one space and the
  substitution goes on after it; where none starts, the character is kept.
\<close>

inductive replaced :: "string \<Rightarrow> string \<Rightarrow> bool" where
  replaced_Nil: "replaced [] []"
| replaced_match:
    "tag_match m \<Longrightarrow>
     (\<forall>m'. prefix m' (m @ rest) \<and> tag_match m' \<longrightarrow> length m' \<le> length m) \<Longrightarrow>
     replaced rest out \<Longrightarrow> replaced (m @ rest) (CHR '' '' # out)"
| replaced_copy:
    "(\<forall>m. prefix m (c # cs) \<longrightarrow> \<not> tag_match m) \<Longrightarrow>
     replaced cs out \<Longrightarrow> replaced (c # cs) (c # out)"

text \<open>
  Collapsing whitespace: the words of the text, which are its maximal runs of characters
  other than whitespace, joined by single spaces. Every run of whitespace between two
  words has become one space and none is left at either end. \<open>rstrip\<close> is
  \<^verbatim>\<open>str.rstrip()\<close>.
\<close>

definition rstrip :: "string \<Rightarrow> string" where
  "rstrip s = rev (dropWhile is_space (rev s))"

function words_of :: "string \<Rightarrow> string list" where
  "words_of s =
     (case dropWhile is_space s of
        [] \<Rightarrow> []
      | c # cs \<Rightarrow>
          takeWhile (\<lambda>x. \<not> is_space x) (c # cs) #
          words_of (dropWhile (\<lambda>x. \<not> is_space x) (c # cs)))"
  by pat_completeness auto
termination
proof (relation "measure length")
  show "wf (measure length)" by simp
next
  fix s :: string and c :: char and cs :: string
  assume d: "dropWhile is_space s = c # cs"
  have "\<not> is_space c" using hd_dropWhile [of is_space s] d by simp
  then have "dropWhile (\<lambda>x. \<not> is_space x) (c # cs) = dropWhile (\<lambda>x. \<not> is_space x) cs" by simp
  moreover have "length (dropWhile (\<lambda>x. \<not> is_space x) cs) \<le> length cs"
    by (rule length_dropWhile_le)
  moreover have "length (c # cs) \<le> length s" unfolding d [symmetric] by (rule length_dropWhile_le)
  ultimately show "(dropWhile (\<lambda>x. \<not> is_space x) (c # cs), s) \<in> measure length" by simp
qed

fun join_words :: "string list \<Rightarrow> string" where
  "join_words [] = []"
| "join_words (w # ws) = (if ws = [] then w else w @ CHR '' '' # join_words ws)"

declare words_of.simps [simp del]

section \<open>Theorems\<close>

subsection \<open>Intake queue overflow\<close>

text \<open>
  C9, as stated: when the intake queue is full, the oldest queued frame is dropped so that
  the newly captured frame is enqueued. On the code this fails: with the queue \<open>[1, 2]\<close>
  of size two and the new frame \<open>3\<close>, the queue stays \<open>[1, 2]\<close>; the oldest frame is
  still at the head and the new frame is nowhere in the queue.
\<close>

theorem C9_drop_oldest_counterexample:
  "queue_full (raw_queue_size full_mic) (raw_audio_queue full_mic) \<and>
   raw_audio_queue (audio_callback full_mic 3 no_flags) = [1, 2] \<and>
   raw_audio_queue (audio_callback full_mic 3 no_flags) \<noteq> tl (raw_audio_queue full_mic) @ [3] \<and>
   3 \<notin> set (raw_audio_queue (audio_callback full_mic 3 no_flags))"
  by (simp add: audio_callback_def put_nowait_def queue_full_def full_mic_def no_flags_def
      flags_truthy_def)

text \<open>
  C9, amended: for every raw frame delivered by the capture callback while capture is
  active and the bounded intake queue is full, the newly captured frame is discarded and
  the queue is left as it was (drop-newest); the discard is logged at debug level. While
  the queue is not full the frame is appended at the back.
\<close>

theorem C9_full_queue_discards_new_frame:
  "capture_active_flag h \<Longrightarrow>
   (queue_full (raw_queue_size h) (raw_audio_queue h) \<longrightarrow>
      raw_audio_queue (audio_callback h indata status) = raw_audio_queue h \<and>
      last (mic_log (audio_callback h indata status)) = (LDebug, msg_raw_queue_full)) \<and>
   (\<not> queue_full (raw_queue_size h) (raw_audio_queue h) \<longrightarrow>
      raw_audio_queue (audio_callback h indata status) = raw_audio_queue h @ [indata])"
  by (simp add: audio_callback_def put_nowait_def Let_def)

theorem C9_full_queue_discards_new_frame_witness:
  "capture_active_flag full_mic \<and>
   queue_full (raw_queue_size full_mic) (raw_audio_queue full_mic) \<and>
   raw_audio_queue (audio_callback full_mic 3 no_flags) = raw_audio_queue full_mic \<and>
   last (mic_log (audio_callback full_mic 3 no_flags)) = (LDebug, msg_raw_queue_full)"
proof -
  have a: "capture_active_flag full_mic" by (simp add: full_mic_def)
  have f: "queue_full (raw_queue_size full_mic) (raw_audio_queue full_mic)"
    by (simp add: full_mic_def queue_full_def)
  from C9_full_queue_discards_new_frame [OF a, of 3 no_flags] a f show ?thesis by simp
qed

subsection \<open>Frames of an unknown type\<close>

text \<open>
  C7, as stated: every frame whose top-level type is not a recognized message type is
  rejected with a system error frame to the sender. On the code this fails: for the frame
  \<^verbatim>\<open>{"type": "ping", "payload": {}}\<close> the deserializer returns the message, the
  dispatcher logs a warning, and nothing at all is sent to the client.
\<close>

theorem C7_unknown_type_counterexample:
  "deserialize_client_message (Inr ping_frame) = Inr ping_frame \<and>
   websocket_receive all_callbacks (0::nat) ''t'' (Inr ping_frame) =
     [LogLine LWarning msg_unknown_type] \<and>
   sent_frames (websocket_receive all_callbacks (0::nat) ''t'' (Inr ping_frame)) = []"
  by (simp add: websocket_receive_def deserialize_client_message_def ping_frame_def
      dict_get_def validate_payload_for_def handle_client_message_def
      MSG_TYPE_INPUT_def MSG_TYPE_CONFIG_def MSG_TYPE_GAMEPAD_STATE_def)

lemma validate_payload_for_other:
  "t \<noteq> MSG_TYPE_INPUT \<Longrightarrow> t \<noteq> MSG_TYPE_CONFIG \<Longrightarrow> t \<noteq> MSG_TYPE_GAMEPAD_STATE \<Longrightarrow>
   validate_payload_for t payload = Inr ()"
  by (simp add: validate_payload_for_def)

lemma deserialize_other_type:
  assumes "dict_get message ''type'' JNull = JStr t" and "t \<noteq> []"
    and "t \<noteq> MSG_TYPE_INPUT" and "t \<noteq> MSG_TYPE_CONFIG" and "t \<noteq> MSG_TYPE_GAMEPAD_STATE"
  shows "deserialize_client_message (Inr (JObj message)) = Inr (JObj message)"
  using assms by (simp add: deserialize_client_message_def validate_payload_for_other Let_def)

lemma deserialize_bad_type:
  assumes "\<not> truthy (dict_get message ''type'' JNull) \<or> \<not> is_str (dict_get message ''type'' JNull)"
  shows "deserialize_client_message (Inr (JObj message)) = Inl msg_type_invalid"
  using assms by (auto simp add: deserialize_client_message_def Let_def)

text \<open>
  C7, amended: a frame whose top-level type is missing, empty or not a string is rejected
  with a system error frame sent back to that client; a frame whose type is a non-empty
  string other than \<^verbatim>\<open>input\<close>, \<^verbatim>\<open>config\<close> and \<^verbatim>\<open>gamepad_state\<close> passes the
  deserializer unchanged and is dropped by the dispatcher with a logged warning, no frame
  being sent to the client.
\<close>

theorem C7_unknown_type_is_dropped:
  "(dict_get message ''type'' JNull = JStr t \<and> t \<noteq> [] \<and>
    t \<noteq> MSG_TYPE_INPUT \<and> t \<noteq> MSG_TYPE_CONFIG \<and> t \<noteq> MSG_TYPE_GAMEPAD_STATE \<longrightarrow>
      deserialize_client_message (Inr (JObj message)) = Inr (JObj message) \<and>
      websocket_receive cb ws ts (Inr (JObj message)) = [LogLine LWarning msg_unknown_type] \<and>
      sent_frames (websocket_receive cb ws ts (Inr (JObj message))) = []) \<and>
   (\<not> truthy (dict_get message ''type'' JNull) \<or> \<not> is_str (dict_get message ''type'' JNull) \<longrightarrow>
      sent_frames (websocket_receive cb ws ts (Inr (JObj message))) =
        [(ws, craft_system_message ts ''Servidor'' ''error''
                (''Mensaje con formato invalido: '' @ msg_type_invalid) None)] \<and>
      is_system_error_frame (craft_system_message ts ''Servidor'' ''error''
                (''Mensaje con formato invalido: '' @ msg_type_invalid) None))"
proof (intro conjI impI)
  assume a: "dict_get message ''type'' JNull = JStr t \<and> t \<noteq> [] \<and>
    t \<noteq> MSG_TYPE_INPUT \<and> t \<noteq> MSG_TYPE_CONFIG \<and> t \<noteq> MSG_TYPE_GAMEPAD_STATE"
  then show d: "deserialize_client_message (Inr (JObj message)) = Inr (JObj message)"
    by (simp add: deserialize_other_type)
  from a have h: "handle_client_message cb (JStr t) (dict_get message ''payload'' JNull) =
      (Inr [LogLine LWarning msg_unknown_type] :: py_exn + 'a gateway_effect list)"
    by (simp add: handle_client_message_def)
  from a d h show r: "websocket_receive cb ws ts (Inr (JObj message)) =
      [LogLine LWarning msg_unknown_type]"
    by (simp add: websocket_receive_def)
  from r show "sent_frames (websocket_receive cb ws ts (Inr (JObj message))) = []"
    by simp
next
  assume "\<not> truthy (dict_get message ''type'' JNull) \<or> \<not> is_str (dict_get message ''type'' JNull)"
  then have "deserialize_client_message (Inr (JObj message)) = Inl msg_type_invalid"
    by (rule deserialize_bad_type)
  then show "sent_frames (websocket_receive cb ws ts (Inr (JObj message))) =
        [(ws, craft_system_message ts ''Servidor'' ''error''
                (''Mensaje con formato invalido: '' @ msg_type_invalid) None)]"
    by (simp add: websocket_receive_def)
next
  show "is_system_error_frame (craft_system_message ts ''Servidor'' ''error''
                (''Mensaje con formato invalido: '' @ msg_type_invalid) None)"
    by (simp add: is_system_error_frame_def craft_system_message_def dict_get_def)
qed

theorem C7_unknown_type_is_dropped_witness:
  "websocket_receive all_callbacks (0::nat) ''t'' (Inr (JObj [(''type'', JStr ''ping'')])) =
     [LogLine LWarning msg_unknown_type] \<and>
   sent_frames (websocket_receive all_callbacks (0::nat) ''t'' (Inr (JObj [(''type'', JNum 7)]))) =
     [(0, craft_system_message ''t'' ''Servidor'' ''error''
            (''Mensaje con formato invalido: '' @ msg_type_invalid) None)]"
proof -
  have a: "dict_get [(''type'', JStr ''ping'')] ''type'' JNull = JStr ''ping'' \<and> ''ping'' \<noteq> [] \<and>
    ''ping'' \<noteq> MSG_TYPE_INPUT \<and> ''ping'' \<noteq> MSG_TYPE_CONFIG \<and> ''ping'' \<noteq> MSG_TYPE_GAMEPAD_STATE"
    by (simp add: dict_get_def MSG_TYPE_INPUT_def MSG_TYPE_CONFIG_def MSG_TYPE_GAMEPAD_STATE_def)
  have b: "\<not> is_str (dict_get [(''type'', JNum 7)] ''type'' JNull)"
    by (simp add: dict_get_def)
  from C7_unknown_type_is_dropped [of "[(''type'', JStr ''ping'')]" "''ping''" all_callbacks "0::nat" "''t''"] a
  have 1: "websocket_receive all_callbacks (0::nat) ''t'' (Inr (JObj [(''type'', JStr ''ping'')])) =
     [LogLine LWarning msg_unknown_type]" by blast
  from C7_unknown_type_is_dropped [of "[(''type'', JNum 7)]" "''ping''" all_callbacks "0::nat" "''t''"] b
  have 2: "sent_frames (websocket_receive all_callbacks (0::nat) ''t'' (Inr (JObj [(''type'', JNum 7)]))) =
     [(0, craft_system_message ''t'' ''Servidor'' ''error''
            (''Mensaje con formato invalido: '' @ msg_type_invalid) None)]" by blast
  from 1 2 show ?thesis by simp
qed

subsection \<open>The malformed gamepad frame\<close>

lemma malformed_gamepad_error:
  "deserialize_client_message (Inr malformed_gamepad_frame) = Inl right_stick_missing"
  by (simp add: deserialize_client_message_def malformed_gamepad_frame_def dict_get_def
      validate_payload_for_def MSG_TYPE_INPUT_def MSG_TYPE_CONFIG_def MSG_TYPE_GAMEPAD_STATE_def
      required_top_level_keys_def dict_has_def and_then_def right_stick_missing_def)

text \<open>
  C8, as stated: deserializing \<^verbatim>\<open>{"type":"gamepad_state","payload":{"left_stick":{"x":0}}}\<close>
  fails with an error that identifies \<^verbatim>\<open>payload.left_stick\<close> as missing the key
  \<^verbatim>\<open>y\<close>. On the code the error is raised by the loop over the required top-level keys,
  before any stick is looked into: its message names \<^verbatim>\<open>payload.right_stick\<close> as
  missing, and does not mention \<^verbatim>\<open>left_stick\<close>.
\<close>

theorem C8_left_stick_not_named_counterexample:
  "deserialize_client_message (Inr malformed_gamepad_frame) = Inl right_stick_missing \<and>
   \<not> sublist ''left_stick'' right_stick_missing \<and>
   sublist ''payload.right_stick'' right_stick_missing"
proof (intro conjI)
  show "deserialize_client_message (Inr malformed_gamepad_frame) = Inl right_stick_missing"
    by (rule malformed_gamepad_error)
  show "\<not> sublist ''left_stick'' right_stick_missing"
    unfolding right_stick_missing_def by code_simp
  show "sublist ''payload.right_stick'' right_stick_missing"
    unfolding right_stick_missing_def by code_simp
qed

text \<open>
  C8, amended: deserializing that frame fails with a validation error that names
  \<^verbatim>\<open>payload.right_stick\<close> as missing (the first absent required top-level key); one
  system error frame carrying that message is sent, to the sending client only; no task
  is scheduled for the motion manager, so no motion state changes.
\<close>

theorem C8_malformed_gamepad_rejected:
  "deserialize_client_message (Inr malformed_gamepad_frame) = Inl right_stick_missing \<and>
   sent_frames (websocket_receive cb ws ts (Inr malformed_gamepad_frame)) =
     [(ws, craft_system_message ts ''Servidor'' ''error''
             (''Mensaje con formato invalido: '' @ right_stick_missing) None)] \<and>
   is_system_error_frame (craft_system_message ts ''Servidor'' ''error''
             (''Mensaje con formato invalido: '' @ right_stick_missing) None) \<and>
   run_gateway_tasks m (websocket_receive cb ws ts (Inr malformed_gamepad_frame)) = m"
  by (simp add: malformed_gamepad_error websocket_receive_def is_system_error_frame_def
      craft_system_message_def dict_get_def)

theorem C8_malformed_gamepad_rejected_witness:
  "sent_frames (websocket_receive all_callbacks (1::nat) ''t'' (Inr malformed_gamepad_frame)) =
     [(1, craft_system_message ''t'' ''Servidor'' ''error''
             (''Mensaje con formato invalido: '' @ right_stick_missing) None)] \<and>
   run_gateway_tasks (motion_manager_init False [] 0 0.5)
     (websocket_receive all_callbacks (1::nat) ''t'' (Inr malformed_gamepad_frame)) =
     motion_manager_init False [] 0 0.5"
  using C8_malformed_gamepad_rejected [of all_callbacks "1::nat" "''t''"
      "motion_manager_init False [] 0 0.5"]
  by simp

subsection \<open>Emergency stop\<close>

text \<open>
  C1: no velocity triple other than \<open>(0, 0, 0)\<close> is sent to the hardware controller while
  the control mode is emergency-stopped, and every velocity command emitted while the
  internal emergency-stop flag is set is \<open>(0, 0, 0)\<close>. The code breaks this in the run
  \<open>estop_race\<close>: the worker thread has taken a payload when the emergency stop is
  triggered; \<^verbatim>\<open>trigger_emergency_stop\<close> sets the flag, signals the hardware stop and
  sends zero; the worker thread, which does not read the flag again before
  \<^verbatim>\<open>set_base_velocities\<close>, then sends the velocities of the payload it holds, with
  the mode emergency-stopped and the flag set. Its next iteration finds the flag set and
  the robot moving and sends zero.
\<close>

theorem C1_velocity_sent_during_emergency_stop:
  "current_control_mode (motion_run fresh_manager estop_race) = EmergencyStopped \<and>
   estop_flag (motion_run fresh_manager estop_race) \<and>
   hw_calls (gamepad_controller (motion_run fresh_manager estop_race)) =
     [InitializeRobot, TriggerHardwareEmergencyStop, SetBaseVelocities 0 0 0] \<and>
   new_hw_calls (motion_run fresh_manager estop_race)
     (motion_run fresh_manager (estop_race @ [EvWorker 0])) =
     [SetBaseVelocities (1 / 4) (- (1 / 4)) 0] \<and>
   current_control_mode (motion_run fresh_manager (estop_race @ [EvWorker 0])) =
     EmergencyStopped \<and>
   estop_flag (motion_run fresh_manager (estop_race @ [EvWorker 0])) \<and>
   new_hw_calls (motion_run fresh_manager (estop_race @ [EvWorker 0]))
     (motion_run fresh_manager (estop_race @ [EvWorker 0, EvWorker 0])) =
     [SetBaseVelocities 0 0 0]"
  by code_simp

text \<open>
  C2: a payload with L3 or R3 pressed, handled while the mode is not emergency-stopped,
  makes the mode emergency-stopped, issues a zero velocity and signals the hardware
  emergency stop; the mode stays so until a payload with both released is handled, when
  the mode returns to gamepad and that payload is processed as a normal movement payload.
  The code breaks the last part in the run \<open>idle_estop_cycle\<close>, which starts in idle
  mode: the release sets the mode to gamepad and hands the payload to the gamepad
  controller, but no processing thread has been started, so the payload stays pending
  and no velocity is sent for it; and since the mode is gamepad already, activating
  gamepad control starts no thread either.
\<close>

theorem C2_release_payload_is_not_processed:
  "current_control_mode fresh_manager = Idle \<and>
   current_control_mode
     (motion_run fresh_manager [EvPayload (demo_payload 0 0 True), EvTask 0]) =
     EmergencyStopped \<and>
   hw_calls (gamepad_controller
     (motion_run fresh_manager [EvPayload (demo_payload 0 0 True), EvTask 0])) =
     [TriggerHardwareEmergencyStop, SetBaseVelocities 0 0 0] \<and>
   current_control_mode (motion_run fresh_manager idle_estop_cycle) = GamepadMode \<and>
   latest_gamepad_payload (gamepad_controller (motion_run fresh_manager idle_estop_cycle)) =
     Some (demo_payload 0.5 0.5 False) \<and>
   threads (gamepad_controller (motion_run fresh_manager idle_estop_cycle)) = [] \<and>
   hw_calls (gamepad_controller (motion_run fresh_manager idle_estop_cycle)) =
     [TriggerHardwareEmergencyStop, SetBaseVelocities 0 0 0] \<and>
   motion_step (motion_run fresh_manager idle_estop_cycle) (EvWorker 0) =
     motion_run fresh_manager idle_estop_cycle \<and>
   motion_run fresh_manager (idle_estop_cycle @ activation 2) =
     motion_run fresh_manager idle_estop_cycle"
  by code_simp

subsection \<open>Dead-man timeout\<close>


subsection \<open>The orchestrator: auxiliary facts\<close>

lemma io_ext_refl: "io_ext sc sc"
proof -
  have "sc = sc\<lparr>conversation := conversation sc, effects := effects sc @ []\<rparr> \<and>
        list_all is_io []" by simp
  then show ?thesis unfolding io_ext_def by blast
qed

lemma io_ext_trans:
  assumes "io_ext a b" and "io_ext b c"
  shows "io_ext a c"
proof -
  from assms(1) obtain c1 m1 where 1: "b = a\<lparr>conversation := c1, effects := effects a @ m1\<rparr>"
    and l1: "list_all is_io m1" unfolding io_ext_def by blast
  from assms(2) obtain c2 m2 where 2: "c = b\<lparr>conversation := c2, effects := effects b @ m2\<rparr>"
    and l2: "list_all is_io m2" unfolding io_ext_def by blast
  have "c = a\<lparr>conversation := c2, effects := effects a @ (m1 @ m2)\<rparr>" by (simp add: 1 2)
  moreover have "list_all is_io (m1 @ m2)" using l1 l2 by simp
  ultimately show ?thesis unfolding io_ext_def by blast
qed

lemma io_ext_emit: "is_io e \<Longrightarrow> io_ext sc (emit sc e)"
proof -
  assume e: "is_io e"
  have "emit sc e = sc\<lparr>conversation := conversation sc, effects := effects sc @ [e]\<rparr>"
    by (simp add: emit_def)
  moreover have "list_all is_io [e]" using e by simp
  ultimately show ?thesis unfolding io_ext_def by blast
qed

lemma io_ext_conversation: "io_ext sc (sc\<lparr>conversation := c\<rparr>)"
proof -
  have "sc\<lparr>conversation := c\<rparr> = sc\<lparr>conversation := c, effects := effects sc @ []\<rparr> \<and>
        list_all is_io []" by simp
  then show ?thesis unfolding io_ext_def by blast
qed

lemma io_ext_send_output: "io_ext sc (snd (send_output sc env a b c))"
  by (simp add: send_output_def io_ext_refl io_ext_emit split: option.splits)

lemma io_ext_send_system_message: "io_ext sc (snd (send_system_message sc env a b c))"
  by (simp add: send_system_message_def io_ext_refl io_ext_emit split: option.splits)

lemma io_ext_speak: "io_ext sc (speak sc env t)"
  by (simp add: speak_def io_ext_refl io_ext_emit split: option.splits)

lemma io_ext_deliver: "io_ext sc (snd (deliver_response sc env t source))"
proof (cases "send_output_exn env")
  case None
  have "io_ext sc (emit sc (SendOutput ''Umebot'' (strip_animation_tags t) source))"
    by (rule io_ext_emit) simp
  moreover have "io_ext (emit sc (SendOutput ''Umebot'' (strip_animation_tags t) source))
      (speak (emit sc (SendOutput ''Umebot'' (strip_animation_tags t) source)) env t)"
    by (rule io_ext_speak)
  ultimately have 1: "io_ext sc
      (speak (emit sc (SendOutput ''Umebot'' (strip_animation_tags t) source)) env t)"
    by (rule io_ext_trans)
  have 2: "io_ext sc (emit sc (SendOutput ''Umebot'' msg_not_sure source))"
    by (rule io_ext_emit) simp
  from None 1 2 show ?thesis
    by (simp add: deliver_response_def send_output_def io_ext_speak io_ext_refl)
next
  case (Some e)
  then show ?thesis
    by (simp add: deliver_response_def send_output_def io_ext_speak io_ext_refl)
qed

lemma io_ext_body: "io_ext sc (snd (conversation_body sc env user_text source images))"
proof (cases "cm_unexpected env")
  case (Some e)
  then show ?thesis by (simp add: conversation_body_def io_ext_refl)
next
  case None
  define r where "r = get_ai_response (conversation sc) env user_text source images"
  have "io_ext sc (sc\<lparr>conversation := snd r\<rparr>)" by (rule io_ext_conversation)
  moreover have "io_ext (sc\<lparr>conversation := snd r\<rparr>)
      (snd (deliver_response (sc\<lparr>conversation := snd r\<rparr>) env (fst r) source))"
    by (rule io_ext_deliver)
  ultimately have "io_ext sc
      (snd (deliver_response (sc\<lparr>conversation := snd r\<rparr>) env (fst r) source))"
    by (rule io_ext_trans)
  with None show ?thesis by (simp add: conversation_body_def Let_def r_def)
qed

lemma io_ext_handler: "io_ext (snd outcome) (snd (conversation_handler outcome env))"
  by (cases outcome)
     (simp add: conversation_handler_def io_ext_refl io_ext_send_system_message
      split: option.splits)

lemma io_ext_fields:
  assumes "io_ext sc sc'"
  shows "has_stt_system sc' = has_stt_system sc" and "stt_running sc' = stt_running sc"
    and "busy_available sc' = busy_available sc"
    and "has_tablet_interface sc' = has_tablet_interface sc"
    and "\<exists>mid. effects sc' = effects sc @ mid \<and> list_all is_io mid"
  using assms unfolding io_ext_def by auto

lemma process_input_passing:
  assumes g: "passes_guards sc user_text images"
  shows "\<exists>c mid.
     snd (process_input_for_conversation sc env user_text source images) =
       sc\<lparr>busy_available := True,
          stt_running := (if has_stt_system sc \<and> stt_running sc then stt_start_result env
                          else stt_running sc),
          conversation := c,
          effects := effects sc @
            (if has_stt_system sc \<and> stt_running sc then [SttStop] else []) @ [BusyClear] @ mid @
            [BusySet] @ (if has_stt_system sc \<and> stt_running sc then [SttStart] else [])\<rparr> \<and>
     list_all is_io mid"
proof -
  define was where "was = (has_stt_system sc \<and> stt_running sc)"
  define sc1 where "sc1 = (if was then (emit sc SttStop)\<lparr>stt_running := False\<rparr> else sc)"
  define sc2 where "sc2 = (emit sc1 BusyClear)\<lparr>busy_available := False\<rparr>"
  define outcome where "outcome = conversation_handler
      (conversation_body sc2 env user_text source images) env"
  have "io_ext sc2 (snd (conversation_body sc2 env user_text source images))"
    by (rule io_ext_body)
  moreover have "io_ext (snd (conversation_body sc2 env user_text source images)) (snd outcome)"
    unfolding outcome_def by (rule io_ext_handler)
  ultimately have "io_ext sc2 (snd outcome)" by (rule io_ext_trans)
  then obtain c mid where o: "snd outcome = sc2\<lparr>conversation := c, effects := effects sc2 @ mid\<rparr>"
    and io: "list_all is_io mid" unfolding io_ext_def by blast
  have p: "process_input_for_conversation sc env user_text source images =
      (fst outcome, conversation_finally (snd outcome) env was)"
  proof -
    from g have ng: "\<not> (user_text = [] \<and> \<not> images_truthy images)"
      and cm: "has_conversation_manager sc" and b: "busy_available sc"
      by (auto simp add: passes_guards_def)
    show ?thesis
      unfolding process_input_for_conversation_def
      by (simp only: ng cm b if_False not_True_eq_False not_False_eq_True Let_def
          was_def sc1_def sc2_def outcome_def)
  qed
  have "conversation_finally (snd outcome) env was =
       sc\<lparr>busy_available := True,
          stt_running := (if was then stt_start_result env else stt_running sc),
          conversation := c,
          effects := effects sc @ (if was then [SttStop] else []) @ [BusyClear] @ mid @
            [BusySet] @ (if was then [SttStart] else [])\<rparr>"
    by (simp add: o conversation_finally_def Let_def sc2_def sc1_def emit_def was_def)
  with p io show ?thesis unfolding was_def by auto
qed

lemma process_input_not_passing:
  assumes g: "\<not> passes_guards sc user_text images"
  shows "io_ext sc (snd (process_input_for_conversation sc env user_text source images))"
  using g
  by (auto simp add: process_input_for_conversation_def passes_guards_def io_ext_refl
      io_ext_send_system_message)

subsection \<open>The busy interlock\<close>

text \<open>
  C10: every invocation of the input-processing routine that clears the busy condition
  (one that passes its three guards) sets it again before returning and, when it stopped
  the recognition at entry, starts it again after that, whatever the conversation
  manager, the sends to the tablet and the speech controller do, also when the routine
  itself ends with an exception: its effects are the bracket
  \<^verbatim>\<open>[stop] clear ... set [start]\<close> around sends and speech only. An invocation that
  does not pass the guards leaves the busy condition and the recognition as they were.
\<close>

theorem C10_busy_and_recognition_restored:
  "(passes_guards sc user_text images \<longrightarrow>
      busy_available (snd (process_input_for_conversation sc env user_text source images)) \<and>
      stt_running (snd (process_input_for_conversation sc env user_text source images)) =
        (if has_stt_system sc \<and> stt_running sc then stt_start_result env else stt_running sc) \<and>
      (\<exists>mid. list_all is_io mid \<and>
         new_effects sc (snd (process_input_for_conversation sc env user_text source images)) =
           (if has_stt_system sc \<and> stt_running sc then [SttStop] else []) @ [BusyClear] @ mid @
           [BusySet] @ (if has_stt_system sc \<and> stt_running sc then [SttStart] else []))) \<and>
   (\<not> passes_guards sc user_text images \<longrightarrow>
      busy_available (snd (process_input_for_conversation sc env user_text source images)) =
        busy_available sc \<and>
      stt_running (snd (process_input_for_conversation sc env user_text source images)) =
        stt_running sc \<and>
      list_all is_io
        (new_effects sc (snd (process_input_for_conversation sc env user_text source images))))"
proof (intro conjI impI)
  assume g: "passes_guards sc user_text images"
  from process_input_passing [OF g, of env source] obtain c mid where
    s: "snd (process_input_for_conversation sc env user_text source images) =
       sc\<lparr>busy_available := True,
          stt_running := (if has_stt_system sc \<and> stt_running sc then stt_start_result env
                          else stt_running sc),
          conversation := c,
          effects := effects sc @
            (if has_stt_system sc \<and> stt_running sc then [SttStop] else []) @ [BusyClear] @ mid @
            [BusySet] @ (if has_stt_system sc \<and> stt_running sc then [SttStart] else [])\<rparr>"
    and io: "list_all is_io mid" by blast
  show "busy_available (snd (process_input_for_conversation sc env user_text source images))"
    by (simp add: s)
  show "stt_running (snd (process_input_for_conversation sc env user_text source images)) =
        (if has_stt_system sc \<and> stt_running sc then stt_start_result env else stt_running sc)"
    by (simp add: s)
  have "new_effects sc (snd (process_input_for_conversation sc env user_text source images)) =
           (if has_stt_system sc \<and> stt_running sc then [SttStop] else []) @ [BusyClear] @ mid @
           [BusySet] @ (if has_stt_system sc \<and> stt_running sc then [SttStart] else [])"
    by (simp add: s new_effects_def)
  with io show "\<exists>mid. list_all is_io mid \<and>
         new_effects sc (snd (process_input_for_conversation sc env user_text source images)) =
           (if has_stt_system sc \<and> stt_running sc then [SttStop] else []) @ [BusyClear] @ mid @
           [BusySet] @ (if has_stt_system sc \<and> stt_running sc then [SttStart] else [])"
    by blast
next
  assume g: "\<not> passes_guards sc user_text images"
  from process_input_not_passing [OF g, of env source]
  have e: "io_ext sc (snd (process_input_for_conversation sc env user_text source images))" .
  from io_ext_fields(3) [OF e]
  show "busy_available (snd (process_input_for_conversation sc env user_text source images)) =
        busy_available sc" .
  from io_ext_fields(2) [OF e]
  show "stt_running (snd (process_input_for_conversation sc env user_text source images)) =
        stt_running sc" .
  from io_ext_fields(5) [OF e]
  show "list_all is_io
        (new_effects sc (snd (process_input_for_conversation sc env user_text source images)))"
    by (auto simp add: new_effects_def)
qed

lemma demo_passes: "passes_guards demo_composer ''hola'' None"
  by (simp add: passes_guards_def demo_composer_def)

lemma stormy_run:
  "process_input_for_conversation demo_composer stormy_env ''hola'' ''gui_manual'' None =
     (Some (RuntimeError ''closed''),
      demo_composer\<lparr>effects := [SttStop, BusyClear, BusySet, SttStart]\<rparr>)"
  by code_simp

theorem C10_busy_and_recognition_restored_witness:
  "passes_guards demo_composer ''hola'' None \<and>
   fst (process_input_for_conversation demo_composer stormy_env ''hola'' ''gui_manual'' None) =
     Some (RuntimeError ''closed'') \<and>
   busy_available
     (snd (process_input_for_conversation demo_composer stormy_env ''hola'' ''gui_manual'' None)) \<and>
   stt_running
     (snd (process_input_for_conversation demo_composer stormy_env ''hola'' ''gui_manual'' None)) \<and>
   new_effects demo_composer
     (snd (process_input_for_conversation demo_composer stormy_env ''hola'' ''gui_manual'' None)) =
     [SttStop, BusyClear, BusySet, SttStart]"
proof -
  from C10_busy_and_recognition_restored
      [of demo_composer "''hola''" None stormy_env "''gui_manual''"] demo_passes
  have "busy_available
     (snd (process_input_for_conversation demo_composer stormy_env ''hola'' ''gui_manual'' None))"
    by blast
  moreover have "effects demo_composer = []" by (simp add: demo_composer_def)
  moreover have "stt_running demo_composer" by (simp add: demo_composer_def)
  ultimately show ?thesis using demo_passes
    by (simp add: stormy_run new_effects_def)
qed

subsection \<open>Output frames and stored turns of a request\<close>

lemma broadcast_frames_append:
  "broadcast_frames ts (xs @ ys) = broadcast_frames ts xs @ broadcast_frames ts ys"
  by (induction ts xs rule: broadcast_frames.induct) simp_all

lemma output_frames_append:
  "output_frames ts (xs @ ys) = output_frames ts xs @ output_frames ts ys"
  by (simp add: output_frames_def broadcast_frames_append)

lemma output_frames_simps [simp]:
  "output_frames ts [] = []"
  "output_frames ts (SendOutput a b c # es) = craft_output_message ts a b c # output_frames ts es"
  "output_frames ts (SayTextWithTags t w # es) = output_frames ts es"
  "output_frames ts (SttStop # es) = output_frames ts es"
  "output_frames ts (SttStart # es) = output_frames ts es"
  "output_frames ts (BusyClear # es) = output_frames ts es"
  "output_frames ts (BusySet # es) = output_frames ts es"
  "output_frames ts (SendSystemMessage a b c # es) = output_frames ts es"
  "output_frames ts (SendPartialSttResult t f # es) = output_frames ts es"
  by (simp_all add: output_frames_def frame_type_def craft_output_message_def
      craft_system_message_def craft_partial_stt_result_message_def dict_get_def
      MSG_TYPE_OUTPUT_def MSG_TYPE_SYSTEM_def MSG_TYPE_PARTIAL_STT_RESULT_def)

lemma deliver_response_normal:
  assumes "has_tablet_interface sc" and "send_output_exn env = None"
  shows "deliver_response sc env t source =
     (None, sc\<lparr>effects := effects sc @
        (if t \<noteq> [] then
           SendOutput ''Umebot'' (strip_animation_tags t) source #
           (if has_animation_speech_controller sc \<and> say_exn env = None
            then [SayTextWithTags t True] else [])
         else [SendOutput ''Umebot'' msg_not_sure source])\<rparr>)"
  using assms
  by (cases "say_exn env")
     (simp_all add: deliver_response_def send_output_def speak_def emit_def)

lemma get_ai_response_nonempty: "fst (get_ai_response cm env user_input source images) \<noteq> []"
  by (simp add: get_ai_response_def answer_with_backend_def Let_def msg_no_conversation_def
      msg_no_personality_def msg_no_engine_def msg_ai_disabled_def msg_prompt_problem_def
      msg_backend_problem_def msg_fallback_empty_def split: option.splits sum.splits)

lemma process_input_normal:
  assumes g: "passes_guards sc user_text images"
    and t: "has_tablet_interface sc"
    and u: "cm_unexpected env = None"
    and o: "send_output_exn env = None"
  shows "process_input_for_conversation sc env user_text source images =
     (None,
      sc\<lparr>busy_available := True,
         stt_running := (if has_stt_system sc \<and> stt_running sc then stt_start_result env
                         else stt_running sc),
         conversation := snd (get_ai_response (conversation sc) env user_text source images),
         effects := effects sc @
           (if has_stt_system sc \<and> stt_running sc then [SttStop] else []) @ [BusyClear] @
           SendOutput ''Umebot''
             (strip_animation_tags
                (fst (get_ai_response (conversation sc) env user_text source images))) source #
           (if has_animation_speech_controller sc \<and> say_exn env = None
            then [SayTextWithTags
                    (fst (get_ai_response (conversation sc) env user_text source images)) True]
            else []) @
           [BusySet] @ (if has_stt_system sc \<and> stt_running sc then [SttStart] else [])\<rparr>)"
proof -
  define r where "r = get_ai_response (conversation sc) env user_text source images"
  define was where "was = (has_stt_system sc \<and> stt_running sc)"
  define sc1 where "sc1 = (if was then (emit sc SttStop)\<lparr>stt_running := False\<rparr> else sc)"
  define sc2 where "sc2 = (emit sc1 BusyClear)\<lparr>busy_available := False\<rparr>"
  have ne: "fst r \<noteq> []" unfolding r_def by (rule get_ai_response_nonempty)
  have t2: "has_tablet_interface (sc2\<lparr>conversation := snd r\<rparr>)"
    using t by (simp add: sc2_def sc1_def emit_def)
  have c2: "conversation sc2 = conversation sc" by (simp add: sc2_def sc1_def emit_def)
  have body: "conversation_body sc2 env user_text source images =
      deliver_response (sc2\<lparr>conversation := snd r\<rparr>) env (fst r) source"
    using u by (simp add: conversation_body_def Let_def r_def c2)
  note d = deliver_response_normal [OF t2 o, of "fst r" source]
  from g have ng: "\<not> (user_text = [] \<and> \<not> images_truthy images)"
    and cm: "has_conversation_manager sc" and b: "busy_available sc"
    by (auto simp add: passes_guards_def)
  have p: "process_input_for_conversation sc env user_text source images =
      (fst (conversation_handler (conversation_body sc2 env user_text source images) env),
       conversation_finally
         (snd (conversation_handler (conversation_body sc2 env user_text source images) env))
         env was)"
    unfolding process_input_for_conversation_def
    by (simp only: ng cm b if_False not_True_eq_False not_False_eq_True Let_def
        was_def sc1_def sc2_def)
  show ?thesis
    unfolding p body d
    using ne
    by (simp add: conversation_handler_def conversation_finally_def Let_def sc2_def sc1_def
        emit_def was_def r_def)
qed

lemma process_input_frames:
  assumes "passes_guards sc user_text images" and "has_tablet_interface sc"
    and "cm_unexpected env = None" and "send_output_exn env = None"
  shows "output_frames ts (new_effects sc
           (snd (process_input_for_conversation sc env user_text source images))) =
         [craft_output_message ts ''Umebot''
            (strip_animation_tags
               (fst (get_ai_response (conversation sc) env user_text source images))) source]"
  unfolding process_input_normal [OF assms]
  by (simp add: new_effects_def output_frames_append)

lemma process_input_interactions:
  assumes "passes_guards sc user_text images" and "has_tablet_interface sc"
    and "cm_unexpected env = None" and "send_output_exn env = None"
  shows "new_interactions sc
           (snd (process_input_for_conversation sc env user_text source images)) =
         drop (length (interactions (conversation sc)))
           (interactions (snd (get_ai_response (conversation sc) env user_text source images)))"
  unfolding process_input_normal [OF assms]
  by (simp add: new_interactions_def)

lemma get_ai_response_guarded:
  "\<not> reaches_backend cm env \<Longrightarrow> snd (get_ai_response cm env user_input source images) = cm"
  by (auto simp add: reaches_backend_def get_ai_response_def answer_with_backend_def
      split: option.splits)

lemma get_ai_response_full:
  assumes "full_exchange cm env conv client"
  shows "get_ai_response cm env user_input source images =
     (case backend_reply env of
        Inl e \<Rightarrow>
          (msg_backend_problem (current_ai_backend_type cm),
           cm\<lparr>interactions := interactions cm @
                [(conv, ''user'', user_content (clock env) user_input source images),
                 (conv, ''assistant'',
                  assistant_content (clock env) (msg_backend_problem (current_ai_backend_type cm))
                    (model_used cm client))]\<rparr>)
      | Inr None \<Rightarrow>
          (msg_fallback_empty,
           cm\<lparr>interactions := interactions cm @
                [(conv, ''user'', user_content (clock env) user_input source images),
                 (conv, ''assistant'',
                  assistant_content (clock env) msg_fallback_empty ''fallback_empty'')]\<rparr>)
      | Inr (Some r) \<Rightarrow>
          if r \<noteq> [] then
            (r,
             cm\<lparr>interactions := interactions cm @
                  [(conv, ''user'', user_content (clock env) user_input source images),
                   (conv, ''assistant'', assistant_content (clock env) r (model_used cm client))]\<rparr>)
          else
            (msg_fallback_empty,
             cm\<lparr>interactions := interactions cm @
                  [(conv, ''user'', user_content (clock env) user_input source images),
                   (conv, ''assistant'',
                    assistant_content (clock env) msg_fallback_empty ''fallback_empty'')]\<rparr>))"
  using assms
  by (simp add: full_exchange_def get_ai_response_def answer_with_backend_def Let_def
      add_interaction_def msg_backend_problem_def split: sum.splits option.splits)

text \<open>
  C4, amended: a request that passes the guards of \<^verbatim>\<open>_process_input_for_conversation\<close>
  (non-empty input, a conversation manager, the busy condition available), with a tablet
  interface whose send does not raise and no unexpected failure of the conversation
  manager, broadcasts exactly one output frame, carrying the stripped response text. Two
  interactions, the user turn and then the assistant turn, are stored when
  \<^verbatim>\<open>get_ai_response\<close> reaches the backend and both writes succeed: for a backend
  exception the assistant turn is the tagged apology with
  \<^verbatim>\<open>model_used = "<backend>_<model>"\<close>, for a non-empty reply it is the reply, for an
  empty reply the fallback text with \<^verbatim>\<open>model_used = "fallback_empty"\<close>. When one of
  the guards of \<^verbatim>\<open>get_ai_response\<close> returns (no conversation, no prompt builder, no
  client, backend \<^verbatim>\<open>none\<close>) or the prompt cannot be built, the canned text is still
  broadcast but nothing is stored.
\<close>

theorem C4_one_output_frame_and_stored_turns:
  fixes sc :: system_composer and env :: request_env
    and user_text source :: string and images :: "string list option" and conv :: int
  defines "sc' \<equiv> snd (process_input_for_conversation sc env user_text source images)"
    and "cm \<equiv> conversation sc"
    and "user_turn \<equiv> (conv, ''user'', user_content (clock env) user_text source images)"
  assumes "passes_guards sc user_text images" and "has_tablet_interface sc"
    and "cm_unexpected env = None" and "send_output_exn env = None"
  shows "output_frames ts (new_effects sc sc') =
           [craft_output_message ts ''Umebot''
              (strip_animation_tags (fst (get_ai_response cm env user_text source images)))
              source] \<and>
         (\<not> reaches_backend cm env \<longrightarrow> new_interactions sc sc' = []) \<and>
         (full_exchange cm env conv client \<and> backend_reply env = Inl e \<longrightarrow>
            new_interactions sc sc' =
              [user_turn,
               (conv, ''assistant'',
                assistant_content (clock env) (msg_backend_problem (current_ai_backend_type cm))
                  (model_used cm client))]) \<and>
         (full_exchange cm env conv client \<and> backend_reply env = Inr (Some r) \<and> r \<noteq> [] \<longrightarrow>
            new_interactions sc sc' =
              [user_turn,
               (conv, ''assistant'', assistant_content (clock env) r (model_used cm client))]) \<and>
         (full_exchange cm env conv client \<and>
          (backend_reply env = Inr None \<or> backend_reply env = Inr (Some [])) \<longrightarrow>
            new_interactions sc sc' =
              [user_turn,
               (conv, ''assistant'',
                assistant_content (clock env) msg_fallback_empty ''fallback_empty'')])"
proof -
  note a = assms(4-7)
  have f: "output_frames ts (new_effects sc sc') =
           [craft_output_message ts ''Umebot''
              (strip_animation_tags (fst (get_ai_response cm env user_text source images)))
              source]"
    unfolding sc'_def cm_def by (rule process_input_frames [OF a])
  have n: "new_interactions sc sc' =
      drop (length (interactions cm)) (interactions (snd (get_ai_response cm env user_text source images)))"
    unfolding sc'_def cm_def by (rule process_input_interactions [OF a])
  have g: "\<not> reaches_backend cm env \<longrightarrow> new_interactions sc sc' = []"
    unfolding n by (simp add: get_ai_response_guarded)
  have e1: "full_exchange cm env conv client \<and> backend_reply env = Inl e \<longrightarrow>
            new_interactions sc sc' =
              [user_turn,
               (conv, ''assistant'',
                assistant_content (clock env) (msg_backend_problem (current_ai_backend_type cm))
                  (model_used cm client))]"
    unfolding n user_turn_def by (auto simp add: get_ai_response_full)
  have e2: "full_exchange cm env conv client \<and> backend_reply env = Inr (Some r) \<and> r \<noteq> [] \<longrightarrow>
            new_interactions sc sc' =
              [user_turn,
               (conv, ''assistant'', assistant_content (clock env) r (model_used cm client))]"
    unfolding n user_turn_def by (auto simp add: get_ai_response_full)
  have e3: "full_exchange cm env conv client \<and>
          (backend_reply env = Inr None \<or> backend_reply env = Inr (Some [])) \<longrightarrow>
            new_interactions sc sc' =
              [user_turn,
               (conv, ''assistant'',
                assistant_content (clock env) msg_fallback_empty ''fallback_empty'')]"
    unfolding n user_turn_def by (auto simp add: get_ai_response_full)
  from f g e1 e2 e3 show ?thesis by blast
qed

lemma demo_full_exchange:
  "full_exchange (conversation demo_composer) failing_backend_env 1 (GPTAPIClient ''gpt-4o'')"
  by (simp add: full_exchange_def demo_composer_def demo_conversation_def
      failing_backend_env_def calm_env_def)

lemma demo_apology:
  "strip_animation_tags
     (fst (get_ai_response (conversation demo_composer) failing_backend_env ''hola''
             ''gui_manual'' None)) = ''Tuve un problema con mi IA (openai_gpt).''"
  by code_simp

lemma demo_apology_text:
  "msg_backend_problem (current_ai_backend_type (conversation demo_composer)) =
     ''^runTag(sad)Tuve un problema con mi IA (openai_gpt).''"
  by (simp add: msg_backend_problem_def demo_composer_def demo_conversation_def)

lemma demo_model_used:
  "model_used (conversation demo_composer) (GPTAPIClient ''gpt-4o'') = ''openai_gpt_gpt-4o''"
  by (simp add: model_used_def model_info_def demo_composer_def demo_conversation_def)

theorem C4_one_output_frame_and_stored_turns_witness:
  "passes_guards demo_composer ''hola'' None \<and>
   output_frames ''t'' (new_effects demo_composer
     (snd (process_input_for_conversation demo_composer failing_backend_env ''hola''
             ''gui_manual'' None))) =
     [craft_output_message ''t'' ''Umebot'' ''Tuve un problema con mi IA (openai_gpt).''
        ''gui_manual''] \<and>
   new_interactions demo_composer
     (snd (process_input_for_conversation demo_composer failing_backend_env ''hola''
             ''gui_manual'' None)) =
     [(1, ''user'', user_content ''t'' ''hola'' ''gui_manual'' None),
      (1, ''assistant'',
       assistant_content ''t'' ''^runTag(sad)Tuve un problema con mi IA (openai_gpt).''
         ''openai_gpt_gpt-4o'')]"
proof -
  have t: "has_tablet_interface demo_composer" by (simp add: demo_composer_def)
  have u: "cm_unexpected failing_backend_env = None"
    by (simp add: failing_backend_env_def calm_env_def)
  have o: "send_output_exn failing_backend_env = None"
    by (simp add: failing_backend_env_def calm_env_def)
  have b: "backend_reply failing_backend_env = Inl (RuntimeError ''timeout'')"
    by (simp add: failing_backend_env_def)
  have c: "clock failing_backend_env = ''t''" by (simp add: failing_backend_env_def calm_env_def)
  note th = C4_one_output_frame_and_stored_turns
         [OF demo_passes t u o, of "''t''" "''gui_manual''" 1 "GPTAPIClient ''gpt-4o''"
            "RuntimeError ''timeout''"]
  from th have f: "output_frames ''t'' (new_effects demo_composer
     (snd (process_input_for_conversation demo_composer failing_backend_env ''hola''
             ''gui_manual'' None))) =
     [craft_output_message ''t'' ''Umebot''
        (strip_animation_tags
           (fst (get_ai_response (conversation demo_composer) failing_backend_env ''hola''
                   ''gui_manual'' None))) ''gui_manual'']"
    by blast
  from th demo_full_exchange b have n: "new_interactions demo_composer
     (snd (process_input_for_conversation demo_composer failing_backend_env ''hola''
             ''gui_manual'' None)) =
     [(1, ''user'', user_content (clock failing_backend_env) ''hola'' ''gui_manual'' None),
      (1, ''assistant'',
       assistant_content (clock failing_backend_env)
         (msg_backend_problem (current_ai_backend_type (conversation demo_composer)))
         (model_used (conversation demo_composer) (GPTAPIClient ''gpt-4o'')))]"
    by blast
  show ?thesis
    unfolding f n demo_apology demo_apology_text demo_model_used c
    using demo_passes by simp
qed

text \<open>
  C4, as stated: every request processed while the busy condition is available broadcasts
  exactly one output frame and stores exactly two interactions. On the code this fails:
  with the backend \<^verbatim>\<open>none\<close> the request \<^verbatim>\<open>hola\<close> is answered by one output frame
  with the canned text of the fourth guard of \<^verbatim>\<open>get_ai_response\<close>, which returns
  before anything is written, so no interaction is stored.
\<close>

theorem C4_two_interactions_counterexample:
  "has_conversation_manager no_ai_composer \<and> busy_available no_ai_composer \<and>
   output_frames ''t'' (new_effects no_ai_composer
     (snd (process_input_for_conversation no_ai_composer calm_env ''hola'' ''gui_manual'' None))) =
     [craft_output_message ''t'' ''Umebot'' ''El modo de IA esta desactivado.'' ''gui_manual''] \<and>
   new_interactions no_ai_composer
     (snd (process_input_for_conversation no_ai_composer calm_env ''hola'' ''gui_manual'' None)) =
     []"
  by code_simp

subsection \<open>Final transcripts\<close>

lemma strip_Nil: "strip [] = []"
  by (simp add: strip_def)

text \<open>
  C5, amended: a final text of the recognizer that is not empty once stripped of
  surrounding whitespace is delivered, stripped, to the final-STT handler, provided
  \<^verbatim>\<open>_setup_main_callbacks\<close> has installed it (there are a recognition system and a
  tablet interface); other finals go no further. The handler, if the busy condition is
  available, broadcasts the text to the tablet clients as one \<^verbatim>\<open>partial_stt_result\<close>
  frame with \<^verbatim>\<open>is_final=True\<close>, and otherwise does nothing. It does not process the
  text as an input: no output frame is sent, no interaction is stored, and the
  conversation, the busy condition and the recognition are left as they are.
\<close>

theorem C5_final_is_broadcast_to_the_tablet:
  fixes sc :: system_composer and recognized_text :: string
  defines "sc' \<equiv> internal_text_callback sc (setup_main_callbacks sc) recognized_text"
  shows "sc' = (if strip recognized_text \<noteq> [] \<and> setup_main_callbacks sc
                then handle_final_stt_segment sc (strip recognized_text) else sc) \<and>
         new_effects sc sc' =
           (if strip recognized_text \<noteq> [] \<and> has_stt_system sc \<and> has_tablet_interface sc \<and>
               busy_available sc
            then [SendPartialSttResult (strip recognized_text) True] else []) \<and>
         broadcast_frames ts (new_effects sc sc') =
           (if strip recognized_text \<noteq> [] \<and> has_stt_system sc \<and> has_tablet_interface sc \<and>
               busy_available sc
            then [craft_partial_stt_result_message ts (strip recognized_text) True] else []) \<and>
         output_frames ts (new_effects sc sc') = [] \<and>
         new_interactions sc sc' = [] \<and>
         conversation sc' = conversation sc \<and>
         busy_available sc' = busy_available sc \<and>
         stt_running sc' = stt_running sc"
  unfolding sc'_def
  by (simp add: internal_text_callback_def setup_main_callbacks_def handle_final_stt_segment_def
      emit_def new_effects_def new_interactions_def strip_Nil Let_def)

lemma strip_padded_hola: "strip '' hola  '' = ''hola''"
  by code_simp

theorem C5_final_is_broadcast_to_the_tablet_witness:
  "new_effects demo_composer
     (internal_text_callback demo_composer (setup_main_callbacks demo_composer) '' hola  '') =
     [SendPartialSttResult ''hola'' True] \<and>
   broadcast_frames ''t'' (new_effects demo_composer
     (internal_text_callback demo_composer (setup_main_callbacks demo_composer) '' hola  '')) =
     [craft_partial_stt_result_message ''t'' ''hola'' True] \<and>
   conversation
     (internal_text_callback demo_composer (setup_main_callbacks demo_composer) '' hola  '') =
     demo_conversation"
proof -
  have f: "has_stt_system demo_composer" "has_tablet_interface demo_composer"
    "busy_available demo_composer" "conversation demo_composer = demo_conversation"
    by (simp_all add: demo_composer_def)
  from C5_final_is_broadcast_to_the_tablet [of demo_composer "'' hola  ''" "''t''", THEN conjunct2] f
  show ?thesis
    by (simp add: strip_padded_hola)
qed

text \<open>
  C5, as stated: the final-STT handler, if the busy condition is available, calls
  \<^verbatim>\<open>process_input\<close> with the text and the source \<^verbatim>\<open>stt_auto\<close>, so that the final
  goes through the conversation manager to the expression controller and the tablet
  clients. On the code this fails: for the final \<^verbatim>\<open>hola\<close> the handler only broadcasts
  a \<^verbatim>\<open>partial_stt_result\<close> frame with \<^verbatim>\<open>is_final=True\<close>; there is no output frame,
  no speech call and no stored interaction, all of which the call of
  \<^verbatim>\<open>_process_input_for_conversation\<close> with the same text would produce.
\<close>

theorem C5_final_not_processed_counterexample:
  "busy_available demo_composer \<and>
   new_effects demo_composer (handle_final_stt_segment demo_composer ''hola'') =
     [SendPartialSttResult ''hola'' True] \<and>
   new_interactions demo_composer (handle_final_stt_segment demo_composer ''hola'') = [] \<and>
   new_effects demo_composer
     (snd (process_input_for_conversation demo_composer calm_env ''hola'' ''stt_auto'' None)) =
     [SttStop, BusyClear, SendOutput ''Umebot'' ''Hola, soy Umebot.'' ''stt_auto'',
      SayTextWithTags ''^runTag(joy) Hola, soy Umebot.'' True, BusySet, SttStart] \<and>
   new_interactions demo_composer
     (snd (process_input_for_conversation demo_composer calm_env ''hola'' ''stt_auto'' None)) =
     [(1, ''user'', user_content ''t'' ''hola'' ''stt_auto'' None),
      (1, ''assistant'',
       assistant_content ''t'' ''^runTag(joy) Hola, soy Umebot.'' ''openai_gpt_gpt-4o'')]"
  by code_simp

subsection \<open>The text for the GUI and the text for the speech\<close>

lemma drop_prefix_append: "drop_prefix p (p @ r) = Some r"
  by (induction p) simp_all

lemma drop_prefix_Some: "drop_prefix p s = Some r \<Longrightarrow> s = p @ r"
  by (induction p s rule: drop_prefix.induct) (auto split: if_splits)

lemma dropWhile_all: "list_all P xs \<Longrightarrow> dropWhile P (xs @ ys) = dropWhile P ys"
  by (induction xs) simp_all

lemma not_space_caret: "\<not> is_space CHR ''^''"
  by (simp add: is_space_def)

lemma match_keyword_kw:
  "kw \<in> set tag_keywords \<Longrightarrow> match_keyword (''^'' @ kw @ ''Tag('' @ r) = Some r"
  by (auto simp add: tag_keywords_def match_keyword_def)

lemma dropWhile_body:
  "CHR '')'' \<notin> set body \<Longrightarrow>
   dropWhile (\<lambda>c. c \<noteq> CHR '')'') (body @ CHR '')'' # r) = CHR '')'' # r"
  by (induction body) auto

lemma tag_match_computes:
  assumes "tag_match m"
  shows "match_tag (m @ t) = Some (dropWhile is_space t)"
proof -
  from assms obtain ws1 kw body ws2 where
    m: "m = ws1 @ ''^'' @ kw @ ''Tag('' @ body @ '')'' @ ws2"
    and w1: "list_all is_space ws1" and kw: "kw \<in> set tag_keywords"
    and b: "CHR '')'' \<notin> set body" and w2: "list_all is_space ws2"
    by (auto simp add: tag_match_def)
  have 1: "dropWhile is_space (m @ t) = ''^'' @ kw @ ''Tag('' @ (body @ CHR '')'' # ws2 @ t)"
    unfolding m using dropWhile_all [OF w1, of "''^'' @ kw @ ''Tag('' @ body @ '')'' @ ws2 @ t"]
    by (simp add: not_space_caret)
  have 2: "match_keyword (dropWhile is_space (m @ t)) = Some (body @ CHR '')'' # ws2 @ t)"
    unfolding 1 by (rule match_keyword_kw [OF kw])
  show ?thesis
    unfolding match_tag_def 2
    by (simp add: dropWhile_body [OF b] dropWhile_all [OF w2])
qed

lemma list_all_takeWhile: "list_all P (takeWhile P xs)"
  by (induction xs) simp_all

lemma match_keyword_Some:
  assumes "match_keyword s = Some r"
  shows "\<exists>kw. kw \<in> set tag_keywords \<and> s = ''^'' @ kw @ ''Tag('' @ r"
proof (cases "drop_prefix ''^runTag('' s")
  case (Some r1)
  with assms have "r1 = r" by (simp add: match_keyword_def)
  with drop_prefix_Some [OF Some] have "s = ''^'' @ ''run'' @ ''Tag('' @ r" by simp
  moreover have "''run'' \<in> set tag_keywords" by (simp add: tag_keywords_def)
  ultimately show ?thesis by blast
next
  case n1: None
  show ?thesis
  proof (cases "drop_prefix ''^startTag('' s")
    case (Some r2)
    with assms n1 have "r2 = r" by (simp add: match_keyword_def)
    with drop_prefix_Some [OF Some] have "s = ''^'' @ ''start'' @ ''Tag('' @ r" by simp
    moreover have "''start'' \<in> set tag_keywords" by (simp add: tag_keywords_def)
    ultimately show ?thesis by blast
  next
    case n2: None
    with assms n1 have w: "drop_prefix ''^waitTag('' s = Some r" by (simp add: match_keyword_def)
    from drop_prefix_Some [OF w] have "s = ''^'' @ ''wait'' @ ''Tag('' @ r" by simp
    moreover have "''wait'' \<in> set tag_keywords" by (simp add: tag_keywords_def)
    ultimately show ?thesis by blast
  qed
qed

lemma match_tag_sound:
  assumes "match_tag s = Some rest"
  shows "\<exists>m. s = m @ rest \<and> tag_match m"
proof -
  from assms obtain body' where k: "match_keyword (dropWhile is_space s) = Some body'"
    by (auto simp add: match_tag_def split: option.splits)
  from assms k obtain c r where d: "dropWhile (\<lambda>c. c \<noteq> CHR '')'') body' = c # r"
    and rest: "rest = dropWhile is_space r"
    by (auto simp add: match_tag_def split: list.splits)
  from match_keyword_Some [OF k] obtain kw where kw: "kw \<in> set tag_keywords"
    and s1: "dropWhile is_space s = ''^'' @ kw @ ''Tag('' @ body'" by blast
  define ws1 where "ws1 = takeWhile is_space s"
  define body where "body = takeWhile (\<lambda>c. c \<noteq> CHR '')'') body'"
  define ws2 where "ws2 = takeWhile is_space r"
  have c: "c = CHR '')''"
    using hd_dropWhile [of "\<lambda>c. c \<noteq> CHR '')''" body'] d by simp
  have b': "body' = body @ CHR '')'' # r"
    using takeWhile_dropWhile_id [of "\<lambda>c. c \<noteq> CHR '')''" body'] d c by (simp add: body_def)
  have r: "r = ws2 @ rest"
    using takeWhile_dropWhile_id [of is_space r] by (simp add: ws2_def rest)
  have s: "s = ws1 @ ''^'' @ kw @ ''Tag('' @ body'"
    using takeWhile_dropWhile_id [of is_space s] s1 by (simp add: ws1_def)
  have nb: "CHR '')'' \<notin> set body"
    unfolding body_def by (auto dest: set_takeWhileD)
  have "tag_match (ws1 @ ''^'' @ kw @ ''Tag('' @ body @ '')'' @ ws2)"
    unfolding tag_match_def
    using kw nb list_all_takeWhile [of is_space s] list_all_takeWhile [of is_space r]
    unfolding ws1_def [symmetric] ws2_def [symmetric]
    by blast
  moreover have "s = (ws1 @ ''^'' @ kw @ ''Tag('' @ body @ '')'' @ ws2) @ rest"
    using s b' r by simp
  ultimately show ?thesis by blast
qed

lemma tag_match_nonempty: "tag_match m \<Longrightarrow> m \<noteq> []"
  by (auto simp add: tag_match_def)

lemma tag_match_space: "tag_match m \<Longrightarrow> is_space c \<Longrightarrow> tag_match (m @ [c])"
proof -
  assume "tag_match m" and c: "is_space c"
  then obtain ws1 kw body ws2 where
    m: "m = ws1 @ ''^'' @ kw @ ''Tag('' @ body @ '')'' @ ws2"
    and w: "list_all is_space ws1" "kw \<in> set tag_keywords" "CHR '')'' \<notin> set body"
      "list_all is_space ws2"
    by (auto simp add: tag_match_def)
  have "m @ [c] = ws1 @ ''^'' @ kw @ ''Tag('' @ body @ '')'' @ (ws2 @ [c])" by (simp add: m)
  moreover have "list_all is_space (ws2 @ [c])" using w c by simp
  ultimately show "tag_match (m @ [c])" unfolding tag_match_def using w by blast
qed

lemma match_tag_None: "match_tag s = None \<Longrightarrow> prefix m s \<Longrightarrow> \<not> tag_match m"
  by (auto simp add: prefix_def tag_match_computes)

lemma match_tag_longest:
  assumes "match_tag s = Some rest" and "prefix m' s" and "tag_match m'"
  shows "length m' + length rest \<le> length s"
proof -
  from assms(2) obtain t where s: "s = m' @ t" by (auto simp add: prefix_def)
  from tag_match_computes [OF assms(3), of t] assms(1) have "rest = dropWhile is_space t"
    by (simp add: s)
  then have "length rest \<le> length t" by (simp add: length_dropWhile_le)
  then show ?thesis by (simp add: s)
qed

lemma replaced_sub_tags: "replaced s (sub_tags s)"
proof (induction s rule: sub_tags.induct)
  case 1
  show ?case by (simp add: replaced_Nil)
next
  case (2 c cs)
  show ?case
  proof (cases "match_tag (c # cs)")
    case None
    then have "\<forall>m. prefix m (c # cs) \<longrightarrow> \<not> tag_match m" by (blast dest: match_tag_None)
    moreover from None 2 have "replaced cs (sub_tags cs)" by simp
    ultimately show ?thesis using None by (simp add: replaced_copy)
  next
    case (Some rest)
    from match_tag_sound [OF Some] obtain m where m: "c # cs = m @ rest" and t: "tag_match m"
      by blast
    have "\<forall>m'. prefix m' (m @ rest) \<and> tag_match m' \<longrightarrow> length m' \<le> length m"
    proof (intro allI impI)
      fix m' assume "prefix m' (m @ rest) \<and> tag_match m'"
      with match_tag_longest [OF Some, of m'] m have "length m' + length rest \<le> length (m @ rest)"
        by simp
      then show "length m' \<le> length m" by simp
    qed
    moreover from Some 2 have "replaced rest (sub_tags rest)" by simp
    ultimately have "replaced (m @ rest) (CHR '' '' # sub_tags rest)"
      using t by (rule replaced_match [rotated -1, rotated -1])
    then have "replaced (c # cs) (CHR '' '' # sub_tags rest)" by (simp only: m)
    moreover have "sub_tags (c # cs) = CHR '' '' # sub_tags rest" using Some by simp
    ultimately show ?thesis by (simp only:)
  qed
qed

lemma replaced_unique: "replaced s out \<Longrightarrow> out = sub_tags s"
proof (induction rule: replaced.induct)
  case replaced_Nil
  show ?case by simp
next
  case (replaced_match m rest out)
  have ns: "dropWhile is_space rest = rest"
  proof (cases rest)
    case Nil
    then show ?thesis by simp
  next
    case (Cons d ds)
    have "\<not> is_space d"
    proof
      assume sp: "is_space d"
      have "tag_match (m @ [d])" using replaced_match.hyps(1) sp by (rule tag_match_space)
      moreover have "prefix (m @ [d]) (m @ rest)" by (simp add: Cons)
      ultimately have "length (m @ [d]) \<le> length m" using replaced_match.hyps(2) by blast
      then show False by simp
    qed
    then show ?thesis by (simp add: Cons)
  qed
  from tag_match_nonempty [OF replaced_match.hyps(1)] obtain c cs where cc: "m @ rest = c # cs"
    by (cases m) auto
  have "match_tag (c # cs) = Some rest"
    using tag_match_computes [OF replaced_match.hyps(1), of rest] ns cc by simp
  then have "sub_tags (c # cs) = CHR '' '' # sub_tags rest" by simp
  then show ?case using replaced_match.IH cc by simp
next
  case (replaced_copy c cs out)
  have "match_tag (c # cs) = None"
  proof (cases "match_tag (c # cs)")
    case None
    then show ?thesis .
  next
    case (Some rest)
    from match_tag_sound [OF Some] obtain m where "c # cs = m @ rest" and "tag_match m" by blast
    then have "prefix m (c # cs) \<and> tag_match m" by (simp add: prefix_def)
    with replaced_copy.hyps(1) show ?thesis by blast
  qed
  then have "sub_tags (c # cs) = c # sub_tags cs" by simp
  then show ?case using replaced_copy.IH by simp
qed

lemma words_of_Nil: "words_of [] = []"
  by (simp add: words_of.simps [of "[]"])

lemma strip_rstrip: "strip s = rstrip (dropWhile is_space s)"
  by (simp add: strip_def rstrip_def)

lemma rstrip_Nil_iff: "rstrip b = [] \<longleftrightarrow> list_all is_space b"
  by (simp add: rstrip_def dropWhile_eq_Nil_conv list_all_iff)

lemma rstrip_append: "rstrip (a @ b) = (if rstrip b = [] then rstrip a else a @ rstrip b)"
  by (auto simp add: rstrip_def dropWhile_append dropWhile_eq_Nil_conv)

lemma rstrip_word: "w \<noteq> [] \<Longrightarrow> list_all (\<lambda>x. \<not> is_space x) w \<Longrightarrow> rstrip w = w"
proof -
  assume w: "w \<noteq> []" and a: "list_all (\<lambda>x. \<not> is_space x) w"
  then have "\<not> is_space (hd (rev w))" by (simp add: hd_rev list_all_iff)
  with w have "dropWhile is_space (rev w) = rev w" by (cases "rev w") auto
  then show ?thesis by (simp add: rstrip_def)
qed

lemma space_is_space: "is_space CHR '' ''"
  by (simp add: is_space_def)

lemma collapse_ws_word:
  "list_all (\<lambda>x. \<not> is_space x) w \<Longrightarrow> collapse_ws (w @ r) = w @ collapse_ws r"
  by (induction w) simp_all

lemma collapse_ws_lstrip: "dropWhile is_space (collapse_ws s) = collapse_ws (dropWhile is_space s)"
proof (cases s)
  case Nil
  then show ?thesis by simp
next
  case (Cons c cs)
  show ?thesis
  proof (cases "is_space c")
    case False
    then show ?thesis by (simp add: Cons)
  next
    case True
    have "dropWhile is_space (collapse_ws (dropWhile is_space cs)) =
          collapse_ws (dropWhile is_space cs)"
    proof (cases "dropWhile is_space cs")
      case Nil
      show ?thesis unfolding Nil by simp
    next
      case (Cons d ds)
      have "\<not> is_space d" using hd_dropWhile [of is_space cs] Cons by simp
      then show ?thesis by (simp add: Cons)
    qed
    then show ?thesis using True by (simp add: Cons space_is_space)
  qed
qed

lemma words_of_nonempty: "[] \<notin> set (words_of s)"
proof (induction s rule: words_of.induct)
  case (1 s)
  show ?case
  proof (cases "dropWhile is_space s")
    case Nil
    show ?thesis unfolding words_of.simps [of s] Nil by simp
  next
    case (Cons c cs)
    have "\<not> is_space c" using hd_dropWhile [of is_space s] Cons by simp
    then have "takeWhile (\<lambda>x. \<not> is_space x) (c # cs) \<noteq> []" by simp
    with 1 [OF Cons] show ?thesis by (simp add: words_of.simps [of s] Cons)
  qed
qed

lemma join_words_Nil: "[] \<notin> set ws \<Longrightarrow> join_words ws = [] \<Longrightarrow> ws = []"
  by (cases ws) (auto split: if_splits)

lemma words_of_lstrip: "words_of (dropWhile is_space s) = words_of s"
  by (simp add: words_of.simps [of s] words_of.simps [of "dropWhile is_space s"])

lemma collapse_words: "rstrip (collapse_ws (dropWhile is_space s)) = join_words (words_of s)"
proof (induction s rule: words_of.induct)
  case (1 s)
  show ?case
  proof (cases "dropWhile is_space s")
    case Nil
    show ?thesis unfolding words_of.simps [of s] Nil by (simp add: rstrip_def)
  next
    case (Cons c cs)
    define w where "w = takeWhile (\<lambda>x. \<not> is_space x) (c # cs)"
    define r where "r = dropWhile (\<lambda>x. \<not> is_space x) (c # cs)"
    have nc: "\<not> is_space c" using hd_dropWhile [of is_space s] Cons by simp
    have wr: "c # cs = w @ r" unfolding w_def r_def by simp
    have wn: "w \<noteq> []" unfolding w_def using nc by simp
    have wa: "list_all (\<lambda>x. \<not> is_space x) w" unfolding w_def by (rule list_all_takeWhile)
    have ws: "words_of s = w # words_of r"
      by (simp add: words_of.simps [of s] Cons w_def r_def)
    have ih: "rstrip (collapse_ws (dropWhile is_space r)) = join_words (words_of r)"
      using 1 [OF Cons] by (simp add: r_def)
    have c1: "collapse_ws (c # cs) = w @ collapse_ws r"
      unfolding wr by (rule collapse_ws_word [OF wa])
    have lhs: "rstrip (collapse_ws (dropWhile is_space s)) = rstrip (w @ collapse_ws r)"
      unfolding Cons c1 ..
    have rhs: "join_words (words_of s) = join_words (w # words_of r)"
      unfolding ws ..
    have "rstrip (w @ collapse_ws r) = join_words (w # words_of r)"
    proof (cases r)
      case Nil
      have "rstrip (w @ collapse_ws r) = w" by (simp add: Nil rstrip_word [OF wn wa])
      moreover have "join_words (w # words_of r) = w" by (simp add: Nil words_of_Nil)
      ultimately show ?thesis by simp
    next
      case (Cons d ds)
      have sd: "is_space d" using hd_dropWhile [of "\<lambda>x. \<not> is_space x" "c # cs"] Cons
        by (simp add: r_def)
      define X where "X = collapse_ws (dropWhile is_space r)"
      have c2: "collapse_ws r = CHR '' '' # X"
        using sd by (simp add: Cons X_def)
      have rx: "rstrip X = join_words (words_of r)" using ih by (simp add: X_def)
      show ?thesis
      proof (cases "rstrip X = []")
        case True
        then have "words_of r = []"
          using join_words_Nil [OF words_of_nonempty [of r]] rx by simp
        then have "join_words (w # words_of r) = w" by simp
        moreover have "rstrip (w @ CHR '' '' # X) = w"
          using True rstrip_append [of w "CHR '' '' # X"] rstrip_append [of "[CHR '' '']" X]
          by (simp add: rstrip_word [OF wn wa] rstrip_Nil_iff space_is_space)
        ultimately show ?thesis unfolding c2 by simp
      next
        case False
        then have ne: "words_of r \<noteq> []" using rx by auto
        then have "join_words (w # words_of r) = w @ CHR '' '' # join_words (words_of r)"
          by simp
        moreover have "rstrip (w @ CHR '' '' # X) = w @ CHR '' '' # rstrip X"
          using False rstrip_append [of w "CHR '' '' # X"] rstrip_append [of "[CHR '' '']" X]
          by simp
        ultimately show ?thesis unfolding c2 rx by simp
      qed
    qed
    then show ?thesis unfolding lhs rhs .
  qed
qed

lemma strip_collapse_words: "strip (collapse_ws s) = join_words (words_of s)"
  by (simp add: strip_rstrip collapse_ws_lstrip collapse_words)

lemma strip_animation_tags_words:
  "strip_animation_tags t = join_words (words_of (sub_tags t))"
  by (simp add: strip_animation_tags_def strip_collapse_words words_of_Nil)

lemma process_input_io:
  assumes "passes_guards sc user_text images" and "has_tablet_interface sc"
    and "cm_unexpected env = None" and "send_output_exn env = None"
    and "has_animation_speech_controller sc" and "say_exn env = None"
  shows "filter is_io (new_effects sc
           (snd (process_input_for_conversation sc env user_text source images))) =
         [SendOutput ''Umebot''
            (strip_animation_tags
               (fst (get_ai_response (conversation sc) env user_text source images))) source,
          SayTextWithTags
            (fst (get_ai_response (conversation sc) env user_text source images)) True]"
  unfolding process_input_normal [OF assms(1-4)]
  using assms(5,6) by (simp add: new_effects_def)

text \<open>
  C6: the text of a response that goes to the GUI is obtained from the annotated text by
  replacing every substring that matches \<^verbatim>\<open>\s*\^(run|start|wait)Tag\([^)]*\)\s*\<close> by a
  single space and collapsing the whitespace of the result, and the annotated text itself
  is what the speech controller is given. For a request that passes the guards, with a
  tablet interface and a speech controller that do not raise, the sends and speech calls
  of the request are the output message with the stripped text and then the speech call
  with the annotated text; the stripped text is the words of the one text that the
  replacement yields, joined by single spaces.
\<close>

theorem C6_gui_text_stripped_speech_annotated:
  fixes sc :: system_composer and env :: request_env
    and user_text source :: string and images :: "string list option"
  defines "r \<equiv> fst (get_ai_response (conversation sc) env user_text source images)"
    and "sc' \<equiv> snd (process_input_for_conversation sc env user_text source images)"
  assumes "passes_guards sc user_text images" and "has_tablet_interface sc"
    and "has_animation_speech_controller sc" and "cm_unexpected env = None"
    and "send_output_exn env = None" and "say_exn env = None"
  shows "filter is_io (new_effects sc sc') =
           [SendOutput ''Umebot'' (strip_animation_tags r) source, SayTextWithTags r True] \<and>
         replaced r (sub_tags r) \<and>
         (\<forall>out. replaced r out \<longrightarrow> out = sub_tags r) \<and>
         strip_animation_tags r = join_words (words_of (sub_tags r))"
proof -
  have "filter is_io (new_effects sc sc') =
           [SendOutput ''Umebot'' (strip_animation_tags r) source, SayTextWithTags r True]"
    unfolding r_def sc'_def
    by (rule process_input_io [OF assms(3) assms(4) assms(6) assms(7) assms(5) assms(8)])
  moreover have "replaced r (sub_tags r)" by (rule replaced_sub_tags)
  moreover have "\<forall>out. replaced r out \<longrightarrow> out = sub_tags r" by (blast dest: replaced_unique)
  moreover have "strip_animation_tags r = join_words (words_of (sub_tags r))"
    by (rule strip_animation_tags_words)
  ultimately show ?thesis by blast
qed

lemma demo_reply:
  "fst (get_ai_response (conversation demo_composer) calm_env ''hola'' ''gui_manual'' None) =
     ''^runTag(joy) Hola, soy Umebot.''"
  by code_simp

lemma demo_reply_stripped:
  "strip_animation_tags ''^runTag(joy) Hola, soy Umebot.'' = ''Hola, soy Umebot.''"
  by code_simp

lemma demo_reply_replaced: "sub_tags ''^runTag(joy) Hola, soy Umebot.'' = '' Hola, soy Umebot.''"
  by code_simp

theorem C6_gui_text_stripped_speech_annotated_witness:
  "passes_guards demo_composer ''hola'' None \<and>
   filter is_io (new_effects demo_composer
     (snd (process_input_for_conversation demo_composer calm_env ''hola'' ''gui_manual'' None))) =
     [SendOutput ''Umebot'' ''Hola, soy Umebot.'' ''gui_manual'',
      SayTextWithTags ''^runTag(joy) Hola, soy Umebot.'' True] \<and>
   replaced ''^runTag(joy) Hola, soy Umebot.'' '' Hola, soy Umebot.'' \<and>
   join_words (words_of '' Hola, soy Umebot.'') = ''Hola, soy Umebot.''"
proof -
  have t: "has_tablet_interface demo_composer" by (simp add: demo_composer_def)
  have a: "has_animation_speech_controller demo_composer" by (simp add: demo_composer_def)
  have u: "cm_unexpected calm_env = None" by (simp add: calm_env_def)
  have o: "send_output_exn calm_env = None" by (simp add: calm_env_def)
  have s: "say_exn calm_env = None" by (simp add: calm_env_def)
  from C6_gui_text_stripped_speech_annotated
         [OF demo_passes t a u o s, of "''gui_manual''"]
  show ?thesis
    unfolding demo_reply demo_reply_stripped demo_reply_replaced
    using demo_passes by simp
qed

end
